theory Spec2Isabelle
  imports Main "HOL-Library.Word"
begin

section \<open>Protocol versions\<close>

text \<open>
  \<^verbatim>\<open>sarama.KafkaVersion\<close> is a struct holding four unsigned components
  (major, minor, very minor, patch); the library constant \<^verbatim>\<open>V0_8_2_1\<close> is the
  version with components 0, 8, 2, 1, and so on for the others.
\<close>

datatype KafkaVersion =
  newKafkaVersion (major: nat) (minor: nat) (veryMinor: nat) (patch: nat)

abbreviation V0_8_2_0 :: KafkaVersion where "V0_8_2_0 \<equiv> newKafkaVersion 0 8 2 0"
abbreviation V0_8_2_1 :: KafkaVersion where "V0_8_2_1 \<equiv> newKafkaVersion 0 8 2 1"
abbreviation V0_8_2_2 :: KafkaVersion where "V0_8_2_2 \<equiv> newKafkaVersion 0 8 2 2"
abbreviation V0_9_0_0 :: KafkaVersion where "V0_9_0_0 \<equiv> newKafkaVersion 0 9 0 0"
abbreviation V0_10_0_0 :: KafkaVersion where "V0_10_0_0 \<equiv> newKafkaVersion 0 10 0 0"
abbreviation V0_10_1_0 :: KafkaVersion where "V0_10_1_0 \<equiv> newKafkaVersion 0 10 1 0"
abbreviation V0_10_2_0 :: KafkaVersion where "V0_10_2_0 \<equiv> newKafkaVersion 0 10 2 0"
abbreviation V0_11_0_0 :: KafkaVersion where "V0_11_0_0 \<equiv> newKafkaVersion 0 11 0 0"

text \<open>
  The library's order on versions (\<^verbatim>\<open>IsAtLeast\<close>): the components are compared
  from the left, the first difference decides.
\<close>

fun atLeastFrom :: "nat list \<Rightarrow> nat list \<Rightarrow> bool" where
  "atLeastFrom (a # as) (b # bs) =
     (if a > b then True else if a < b then False else atLeastFrom as bs)"
| "atLeastFrom _ _ = True"

definition IsAtLeast :: "KafkaVersion \<Rightarrow> KafkaVersion \<Rightarrow> bool" where
  "IsAtLeast v other =
     atLeastFrom [major v, minor v, veryMinor v, patch v]
                 [major other, minor other, veryMinor other, patch other]"

subsection \<open>The legacy fallback table\<close>

text \<open>The map literal \<^verbatim>\<open>legacyKafkaVersionFallback\<close>, entry by entry.\<close>

definition legacyKafkaVersionFallback_entries :: "(string \<times> KafkaVersion) list" where
  "legacyKafkaVersionFallback_entries =
     [('''', V0_10_2_0),
      (''0.8.0'', V0_8_2_0),
      (''0.8.1'', V0_8_2_1),
      (''0.8.2'', V0_8_2_2),
      (''0.8'', V0_8_2_0),
      (''0.9.0'', V0_9_0_0),
      (''0.9'', V0_9_0_0),
      (''0.10.0'', V0_10_0_0),
      (''0.10.1'', V0_10_1_0),
      (''0.10.2'', V0_10_2_0),
      (''0.10'', V0_10_0_0),
      (''0.11.0'', V0_11_0_0),
      (''0.11'', V0_11_0_0)]"

definition legacyKafkaVersionFallback :: "string \<rightharpoonup> KafkaVersion" where
  "legacyKafkaVersionFallback = map_of legacyKafkaVersionFallback_entries"

subsection \<open>Panics\<close>

text \<open>
  The source signals every configuration failure by \<^verbatim>\<open>panic\<close>. Each panic site
  is one constructor, carrying the variable parts of its message.
\<close>

datatype error =
    UnknownKafkaVersion string
  | UnknownClientProfile string
  | CannotReadCAFile string
  | CannotReadCertOrKey string
  | IamRegionRequired string
  | IamNoTLSProfile string string

subsection \<open>parseKafkaVersion\<close>

text \<open>
  \<^verbatim>\<open>sarama.ParseKafkaVersion\<close> belongs to the client library, so the strict parser
  is a parameter. Like the Go function it returns a pair: a version and an error, the
  error being \<open>None\<close> for \<^verbatim>\<open>nil\<close>. (On failure the library returns its default
  version next to the error.)
\<close>

type_synonym strictParser = "string \<Rightarrow> KafkaVersion \<times> string option"

definition parseKafkaVersion :: "strictParser \<Rightarrow> string \<Rightarrow> error + KafkaVersion" where
  "parseKafkaVersion ParseKafkaVersion kafkaVersion =
     (case ParseKafkaVersion kafkaVersion of
        (version, None) \<Rightarrow> Inr version
      | (version, Some err) \<Rightarrow>
          (case legacyKafkaVersionFallback kafkaVersion of
             None \<Rightarrow> Inl (UnknownKafkaVersion kafkaVersion)
           | Some version1 \<Rightarrow> Inr version1))"

section \<open>The configuration source\<close>

text \<open>
  The builder reads its input through the process-wide \<^verbatim>\<open>viper\<close> store and writes
  two defaults into it, so the store is threaded through the model as a state. The store
  is addressed by full dotted keys (a section such as \<^verbatim>\<open>client-profile.test\<close> is set
  when it has an entry of its own; the library's folding of letter case in keys and its
  other sources of values, environment and flags, are left out). A stored value is kept with the three readings the
  typed getters give for it. A value from the configuration takes precedence over a
  default; a key found in neither layer reads as the zero value of the getter's type.
\<close>

record setting =
  asString :: string
  asBool :: bool
  asInt :: int

record viper =
  config :: "string \<rightharpoonup> setting"
  defaults :: "string \<rightharpoonup> setting"

definition viper_find :: "viper \<Rightarrow> string \<Rightarrow> setting option" where
  "viper_find v key = (case config v key of Some x \<Rightarrow> Some x | None \<Rightarrow> defaults v key)"

definition IsSet :: "viper \<Rightarrow> string \<Rightarrow> bool" where
  "IsSet v key = (viper_find v key \<noteq> None)"

definition GetString :: "viper \<Rightarrow> string \<Rightarrow> string" where
  "GetString v key = (case viper_find v key of None \<Rightarrow> [] | Some x \<Rightarrow> asString x)"

definition GetBool :: "viper \<Rightarrow> string \<Rightarrow> bool" where
  "GetBool v key = (case viper_find v key of None \<Rightarrow> False | Some x \<Rightarrow> asBool x)"

definition GetInt :: "viper \<Rightarrow> string \<Rightarrow> int" where
  "GetInt v key = (case viper_find v key of None \<Rightarrow> 0 | Some x \<Rightarrow> asInt x)"

definition stringSetting :: "string \<Rightarrow> setting" where
  "stringSetting s = \<lparr>asString = s, asBool = False, asInt = 0\<rparr>"

definition SetDefault :: "viper \<Rightarrow> string \<Rightarrow> string \<Rightarrow> viper" where
  "SetDefault v key s = v\<lparr>defaults := (defaults v)(key \<mapsto> stringSetting s)\<rparr>"

section \<open>The client configuration\<close>

type_synonym bytes = "8 word list"

text \<open>
  The part of \<^verbatim>\<open>tls.Config\<close> the builder fills in. A certificate pool is modelled by
  the PEM blocks appended to it; \<open>None\<close> is the nil pool of a zero \<^verbatim>\<open>tls.Config\<close>.
  Of a \<^verbatim>\<open>tls.Certificate\<close> the chain and the private key are kept.
\<close>

record Certificate =
  Certificate :: "bytes list"
  PrivateKey :: bytes

record tlsConfig =
  RootCAs :: "bytes list option"
  Certificates :: "Certificate list"
  InsecureSkipVerify :: bool

record iamTokenProvider =
  region :: string
  roleArn :: string
  profile :: string

datatype HashGeneratorFcn = SHA256 | SHA512

text \<open>
  \<^verbatim>\<open>XDGSCRAMClient{HashGeneratorFcn: h}\<close>: the generator closure is kept as the
  hash it builds its client with.
\<close>

datatype SCRAMClientGenerator = XDGSCRAMClient HashGeneratorFcn

abbreviation SASLTypeOAuth :: string where "SASLTypeOAuth \<equiv> ''OAUTHBEARER''"
abbreviation SASLTypeSCRAMSHA256 :: string where "SASLTypeSCRAMSHA256 \<equiv> ''SCRAM-SHA-256''"
abbreviation SASLTypeSCRAMSHA512 :: string where "SASLTypeSCRAMSHA512 \<equiv> ''SCRAM-SHA-512''"

text \<open>
  The fields of \<^verbatim>\<open>sarama.Config\<close> the builder touches, named by their path. Pointers
  (\<^verbatim>\<open>Net.TLS.Config\<close>, the token provider, the generator function) are \<open>None\<close>
  when nil. Durations are \<^verbatim>\<open>int64\<close> nanoseconds.
\<close>

record Config =
  ClientID :: string
  Version :: KafkaVersion
  Consumer_Return_Errors :: bool
  Net_TLS_Enable :: bool
  Net_TLS_Config :: "tlsConfig option"
  Net_SASL_Enable :: bool
  Net_SASL_Mechanism :: string
  Net_SASL_SCRAMClientGeneratorFunc :: "SCRAMClientGenerator option"
  Net_SASL_Handshake :: bool
  Net_SASL_User :: string
  Net_SASL_Password :: string
  Net_SASL_TokenProvider :: "iamTokenProvider option"
  Net_DialTimeout :: "64 word"
  Net_ReadTimeout :: "64 word"

abbreviation Second :: "64 word" where "Second \<equiv> 1000000000"

text \<open>
  \<^verbatim>\<open>sarama.NewConfig()\<close> on these fields: the library sets the handshake flag and
  the two timeouts (30 seconds), the others start at Go's zero value. Client identifier
  and version are overwritten by the builder before anything reads them.
\<close>

definition NewConfig :: "Config" where
  "NewConfig =
     \<lparr>ClientID = ''sarama'',
      Version = newKafkaVersion 2 1 0 0,
      Consumer_Return_Errors = False,
      Net_TLS_Enable = False,
      Net_TLS_Config = None,
      Net_SASL_Enable = False,
      Net_SASL_Mechanism = [],
      Net_SASL_SCRAMClientGeneratorFunc = None,
      Net_SASL_Handshake = True,
      Net_SASL_User = [],
      Net_SASL_Password = [],
      Net_SASL_TokenProvider = None,
      Net_DialTimeout = 30 * Second,
      Net_ReadTimeout = 30 * Second\<rparr>"

section \<open>The environment\<close>

text \<open>
  What the builder calls outside this repository: the library's strict version parser,
  \<^verbatim>\<open>os.ReadFile\<close> and \<^verbatim>\<open>tls.LoadX509KeyPair\<close>. The two file operations return
  \<open>Inl\<close> of the error text or \<open>Inr\<close> of the value.
\<close>

record env =
  ParseKafkaVersion :: strictParser
  ReadFile :: "string \<Rightarrow> string + bytes"
  LoadX509KeyPair :: "string \<Rightarrow> string \<Rightarrow> string + Certificate"

section \<open>GetSaramaConfigFromClientProfile\<close>

text \<open>The block \<^verbatim>\<open>// Configure TLS if enabled\<close>.\<close>

definition configureTLS ::
  "env \<Rightarrow> viper \<Rightarrow> string \<Rightarrow> Config \<Rightarrow> error + Config" where
  "configureTLS e v configRoot saramaConfig =
     (if IsSet v (configRoot @ ''.tls'') then
        (let tlsName = GetString v (configRoot @ ''.tls'');
             saramaConfig = saramaConfig\<lparr>Net_TLS_Enable := True\<rparr>;
             certFile = GetString v (''tls.'' @ tlsName @ ''.certfile'');
             keyFile = GetString v (''tls.'' @ tlsName @ ''.keyfile'');
             caFile = GetString v (''tls.'' @ tlsName @ ''.cafile'');
             noverify = GetBool v (''tls.'' @ tlsName @ ''.noverify'')
         in
           if caFile = [] then
             Inr (saramaConfig\<lparr>Net_TLS_Config :=
                    Some \<lparr>RootCAs = None, Certificates = [],
                          InsecureSkipVerify = noverify\<rparr>\<rparr>)
           else
             (case ReadFile e caFile of
                Inl err \<Rightarrow> Inl (CannotReadCAFile err)
              | Inr caCert \<Rightarrow>
                  if certFile \<noteq> [] \<and> keyFile \<noteq> [] then
                    (case LoadX509KeyPair e certFile keyFile of
                       Inl err \<Rightarrow> Inl (CannotReadCertOrKey err)
                     | Inr cert \<Rightarrow>
                         Inr (saramaConfig\<lparr>Net_TLS_Config :=
                                Some \<lparr>RootCAs = Some [caCert], Certificates = [cert],
                                      InsecureSkipVerify = noverify\<rparr>\<rparr>))
                  else
                    Inr (saramaConfig\<lparr>Net_TLS_Config :=
                           Some \<lparr>RootCAs = Some [caCert], Certificates = [],
                                 InsecureSkipVerify = noverify\<rparr>\<rparr>)))
      else Inr saramaConfig)"

text \<open>The block \<^verbatim>\<open>// Configure SASL if enabled\<close>.\<close>

definition configureSASL :: "viper \<Rightarrow> string \<Rightarrow> Config \<Rightarrow> Config" where
  "configureSASL v configRoot saramaConfig =
     (if IsSet v (configRoot @ ''.sasl'') then
        (let saslName = GetString v (configRoot @ ''.sasl'');
             saramaConfig = saramaConfig\<lparr>Net_SASL_Enable := True\<rparr>;
             mechanism = GetString v (''sasl.'' @ saslName @ ''.mechanism'');
             saramaConfig =
               (if mechanism = ''SCRAM-SHA-256'' then
                  saramaConfig\<lparr>Net_SASL_Mechanism := SASLTypeSCRAMSHA256,
                               Net_SASL_SCRAMClientGeneratorFunc := Some (XDGSCRAMClient SHA256)\<rparr>
                else if mechanism = ''SCRAM-SHA-512'' then
                  saramaConfig\<lparr>Net_SASL_Mechanism := SASLTypeSCRAMSHA512,
                               Net_SASL_SCRAMClientGeneratorFunc := Some (XDGSCRAMClient SHA512)\<rparr>
                else saramaConfig)
         in saramaConfig
              \<lparr>Net_SASL_Handshake := GetBool v (''sasl.'' @ saslName @ ''.handshake-first''),
               Net_SASL_User := GetString v (''sasl.'' @ saslName @ ''.username''),
               Net_SASL_Password := GetString v (''sasl.'' @ saslName @ ''.password'')\<rparr>)
      else saramaConfig)"

text \<open>The block that starts at \<^verbatim>\<open>if iamName := ...; iamName != ""\<close>.\<close>

definition configureIAM ::
  "viper \<Rightarrow> string \<Rightarrow> string \<Rightarrow> Config \<Rightarrow> error + Config" where
  "configureIAM v profileName configRoot saramaConfig =
     (let iamName = GetString v (configRoot @ ''.iam'') in
      if iamName \<noteq> [] then
        (let iamRoot = ''iam.'' @ iamName;
             region = GetString v (iamRoot @ ''.region'')
         in
           if region = [] then Inl (IamRegionRequired iamName)
           else if \<not> Net_TLS_Enable saramaConfig then
             Inl (IamNoTLSProfile profileName iamName)
           else
             Inr (saramaConfig
                    \<lparr>Net_SASL_Enable := True,
                     Net_SASL_Handshake := True,
                     Net_SASL_Mechanism := SASLTypeOAuth,
                     Net_SASL_TokenProvider :=
                       Some \<lparr>region = region,
                             roleArn = GetString v (iamRoot @ ''.role-arn''),
                             profile = GetString v (iamRoot @ ''.profile'')\<rparr>\<rparr>))
      else Inr saramaConfig)"

text \<open>The two timeout blocks: seconds, converted to a duration (wrapping at 64 bits).\<close>

definition configureTimeouts :: "viper \<Rightarrow> string \<Rightarrow> Config \<Rightarrow> Config" where
  "configureTimeouts v configRoot saramaConfig =
     (let saramaConfig =
            (if IsSet v (configRoot @ ''.dial-timeout'') then
               saramaConfig\<lparr>Net_DialTimeout :=
                 word_of_int (GetInt v (configRoot @ ''.dial-timeout'')) * Second\<rparr>
             else saramaConfig)
      in
        if IsSet v (configRoot @ ''.read-timeout'') then
          saramaConfig\<lparr>Net_ReadTimeout :=
            word_of_int (GetInt v (configRoot @ ''.read-timeout'')) * Second\<rparr>
        else saramaConfig)"

text \<open>
  Everything after the two \<^verbatim>\<open>SetDefault\<close> calls, on the store they leave behind.
\<close>

definition assemble ::
  "env \<Rightarrow> viper \<Rightarrow> string \<Rightarrow> string \<Rightarrow> error + Config" where
  "assemble e v profileName configRoot =
     (case parseKafkaVersion (ParseKafkaVersion e) (GetString v (configRoot @ ''.kafka-version'')) of
        Inl err \<Rightarrow> Inl err
      | Inr version \<Rightarrow>
          (let saramaConfig =
                 NewConfig\<lparr>ClientID := GetString v (configRoot @ ''.client-id''),
                           Version := version,
                           Consumer_Return_Errors := True\<rparr>
           in
             case configureTLS e v configRoot saramaConfig of
               Inl err \<Rightarrow> Inl err
             | Inr saramaConfig \<Rightarrow>
                 (case configureIAM v profileName configRoot
                         (configureSASL v configRoot saramaConfig) of
                    Inl err \<Rightarrow> Inl err
                  | Inr saramaConfig \<Rightarrow> Inr (configureTimeouts v configRoot saramaConfig))))"

text \<open>
  The builder: the result (a panic or the configuration) and the store as the call
  leaves it.
\<close>

definition GetSaramaConfigFromClientProfile ::
  "env \<Rightarrow> string \<Rightarrow> viper \<Rightarrow> (error + Config) \<times> viper" where
  "GetSaramaConfigFromClientProfile e profileName v =
     (let configRoot = ''client-profile.'' @ profileName in
      if profileName \<noteq> [] \<and> \<not> IsSet v (''client-profile.'' @ profileName) then
        (Inl (UnknownClientProfile profileName), v)
      else
        (let v = SetDefault v (configRoot @ ''.client-id'') ''burrow-lagchecker'';
             v = SetDefault v (configRoot @ ''.kafka-version'') ''2.8.0''
         in (assemble e v profileName configRoot, v)))"

text \<open>
  Two names for the proofs: the source's local \<^verbatim>\<open>configRoot\<close> as a function of the
  profile name, and the store as the two \<^verbatim>\<open>SetDefault\<close> calls leave it.
\<close>

definition configRootOf :: "string \<Rightarrow> string" where
  "configRootOf profileName = ''client-profile.'' @ profileName"

definition withDefaults :: "viper \<Rightarrow> string \<Rightarrow> viper" where
  "withDefaults v profileName =
     SetDefault
       (SetDefault v (configRootOf profileName @ ''.client-id'') ''burrow-lagchecker'')
       (configRootOf profileName @ ''.kafka-version'') ''2.8.0''"

section \<open>Vocabulary of the specification\<close>

text \<open>
  The specification speaks of the "latest known patch under a minor" and of "minor-only
  specifiers". These follow its words, over the versions the table itself knows: two
  versions are under the same minor when major and minor agree; a key is minor-only
  when it has exactly one dot.
\<close>

definition sameMinor :: "KafkaVersion \<Rightarrow> KafkaVersion \<Rightarrow> bool" where
  "sameMinor a b = (major a = major b \<and> minor a = minor b)"

definition knownUnderMinor :: "KafkaVersion \<Rightarrow> KafkaVersion list" where
  "knownUnderMinor v = filter (sameMinor v) (map snd legacyKafkaVersionFallback_entries)"

definition spec_resolves_to_latest_under_minor :: "string \<Rightarrow> bool" where
  "spec_resolves_to_latest_under_minor key =
     (case legacyKafkaVersionFallback key of
        None \<Rightarrow> False
      | Some v \<Rightarrow> list_all (IsAtLeast v) (knownUnderMinor v))"

definition resolves_to_earliest_under_minor :: "string \<Rightarrow> bool" where
  "resolves_to_earliest_under_minor key =
     (case legacyKafkaVersionFallback key of
        None \<Rightarrow> False
      | Some v \<Rightarrow> list_all (\<lambda>w. IsAtLeast w v) (knownUnderMinor v))"

definition minorOnly :: "string \<Rightarrow> bool" where
  "minorOnly key = (length (filter (\<lambda>c. c = CHR ''.'') key) = 1)"

section \<open>A sample installation\<close>

text \<open>
  A concrete environment and store, on which the theorems below are instantiated. The
  parser accepts two modern version strings and rejects everything else; one CA file
  and one certificate/key pair exist. The store holds the profile of the shipped example
  configuration (\<open>test\<close>), its commented IAM example (\<open>msk-iam\<close>), and profiles that
  combine the sub-profiles in other ways.
\<close>

definition sampleParser :: strictParser where
  "sampleParser s =
     (if s = ''2.8.0'' then (newKafkaVersion 2 8 0 0, None)
      else if s = ''2.0.0'' then (newKafkaVersion 2 0 0 0, None)
      else (newKafkaVersion 2 1 0 0, Some ''invalid version''))"

definition sampleEnv :: env where
  "sampleEnv =
     \<lparr>ParseKafkaVersion = sampleParser,
      ReadFile = (\<lambda>name. if name = ''ca.pem'' then Inr [45, 45, 45] else Inl ''no such file''),
      LoadX509KeyPair =
        (\<lambda>certFile keyFile.
           if certFile = ''cert.pem'' \<and> keyFile = ''key.pem'' then Inr \<lparr>Certificate = [[48, 130]], PrivateKey = [48, 129]\<rparr>
           else Inl ''no such file'')\<rparr>"

definition boolSetting :: "bool \<Rightarrow> setting" where
  "boolSetting b =
     \<lparr>asString = (if b then ''true'' else ''false''), asBool = b, asInt = (if b then 1 else 0)\<rparr>"

definition sampleConfig :: "(string \<times> setting) list" where
  "sampleConfig =
     [(''client-profile.test'', stringSetting []),
      (''client-profile.test.client-id'', stringSetting ''burrow-test''),
      (''client-profile.test.kafka-version'', stringSetting ''0.10.0''),
      (''client-profile.msk-iam'', stringSetting []),
      (''client-profile.msk-iam.kafka-version'', stringSetting ''2.0.0''),
      (''client-profile.msk-iam.client-id'', stringSetting ''burrow''),
      (''client-profile.msk-iam.tls'', stringSetting ''msk-tls''),
      (''client-profile.msk-iam.iam'', stringSetting ''eks''),
      (''iam.eks.region'', stringSetting ''us-west-1''),
      (''tls.msk-tls.noverify'', boolSetting True),
      (''client-profile.mutual'', stringSetting []),
      (''client-profile.mutual.tls'', stringSetting ''mutual''),
      (''tls.mutual.cafile'', stringSetting ''ca.pem''),
      (''tls.mutual.certfile'', stringSetting ''cert.pem''),
      (''tls.mutual.keyfile'', stringSetting ''key.pem''),
      (''client-profile.bad-pair'', stringSetting []),
      (''client-profile.bad-pair.tls'', stringSetting ''bad-pair''),
      (''tls.bad-pair.cafile'', stringSetting ''ca.pem''),
      (''tls.bad-pair.certfile'', stringSetting ''missing.pem''),
      (''tls.bad-pair.keyfile'', stringSetting ''key.pem''),
      (''client-profile.lost-cert'', stringSetting []),
      (''client-profile.lost-cert.tls'', stringSetting ''lost-cert''),
      (''tls.lost-cert.certfile'', stringSetting ''missing.pem''),
      (''tls.lost-cert.keyfile'', stringSetting ''key.pem''),
      (''client-profile.client-cert'', stringSetting []),
      (''client-profile.client-cert.tls'', stringSetting ''client-cert''),
      (''tls.client-cert.certfile'', stringSetting ''cert.pem''),
      (''tls.client-cert.keyfile'', stringSetting ''key.pem''),
      (''client-profile.iam-no-tls'', stringSetting []),
      (''client-profile.iam-no-tls.iam'', stringSetting ''eks''),
      (''client-profile.iam-no-region'', stringSetting []),
      (''client-profile.iam-no-region.tls'', stringSetting ''msk-tls''),
      (''client-profile.iam-no-region.iam'', stringSetting ''bare''),
      (''client-profile.plain'', stringSetting []),
      (''client-profile.plain.sasl'', stringSetting ''plain''),
      (''sasl.plain.mechanism'', stringSetting ''PLAIN''),
      (''sasl.plain.handshake-first'', boolSetting False),
      (''sasl.plain.username'', stringSetting ''burrow''),
      (''sasl.plain.password'', stringSetting ''secret''),
      (''client-profile.plain-iam'', stringSetting []),
      (''client-profile.plain-iam.sasl'', stringSetting ''plain''),
      (''client-profile.plain-iam.tls'', stringSetting ''msk-tls''),
      (''client-profile.plain-iam.iam'', stringSetting ''eks''),
      (''client-profile.scram-iam'', stringSetting []),
      (''client-profile.scram-iam.sasl'', stringSetting ''scram''),
      (''client-profile.scram-iam.tls'', stringSetting ''msk-tls''),
      (''client-profile.scram-iam.iam'', stringSetting ''eks''),
      (''sasl.scram.mechanism'', stringSetting ''SCRAM-SHA-512''),
      (''sasl.scram.handshake-first'', boolSetting False),
      (''sasl.scram.username'', stringSetting ''burrow''),
      (''sasl.scram.password'', stringSetting ''secret''),
      (''client-profile.insecure'', stringSetting []),
      (''client-profile.insecure.tls'', stringSetting ''msk-tls''),
      (''client-profile.typo'', stringSetting []),
      (''client-profile.typo.kafka-version'', stringSetting ''2.8''),
      (''client-profile.old-iam'', stringSetting []),
      (''client-profile.old-iam.kafka-version'', stringSetting ''0.8.3''),
      (''client-profile.old-iam.tls'', stringSetting ''msk-tls''),
      (''client-profile.old-iam.iam'', stringSetting ''eks'')]"

definition sampleViper :: viper where
  "sampleViper = \<lparr>config = map_of sampleConfig, defaults = Map.empty\<rparr>"

section \<open>Lemmas on the store\<close>

lemma viper_find_SetDefault_other:
  "key \<noteq> k \<Longrightarrow> viper_find (SetDefault v k d) key = viper_find v key"
  by (simp add: viper_find_def SetDefault_def split: option.split)

lemma viper_find_SetDefault_same:
  "viper_find (SetDefault v k d) k =
     (case config v k of Some x \<Rightarrow> Some x | None \<Rightarrow> Some (stringSetting d))"
  by (simp add: viper_find_def SetDefault_def split: option.split)

lemma config_SetDefault: "config (SetDefault v k d) = config v"
  by (simp add: SetDefault_def)

lemma SetDefault_twice:
  "k1 \<noteq> k2 \<Longrightarrow>
   SetDefault (SetDefault (SetDefault (SetDefault v k1 a) k2 b) k1 a) k2 b
     = SetDefault (SetDefault v k1 a) k2 b"
  by (simp add: SetDefault_def fun_upd_twist)

lemma viper_find_withDefaults:
  assumes "key \<noteq> configRootOf p @ ''.client-id''" "key \<noteq> configRootOf p @ ''.kafka-version''"
  shows "viper_find (withDefaults v p) key = viper_find v key"
  using assms by (simp add: withDefaults_def viper_find_SetDefault_other)

lemma reads_withDefaults:
  assumes "key \<noteq> configRootOf p @ ''.client-id''" "key \<noteq> configRootOf p @ ''.kafka-version''"
  shows "IsSet (withDefaults v p) key = IsSet v key"
    and "GetString (withDefaults v p) key = GetString v key"
    and "GetBool (withDefaults v p) key = GetBool v key"
    and "GetInt (withDefaults v p) key = GetInt v key"
  using assms by (simp_all add: IsSet_def GetString_def GetBool_def GetInt_def viper_find_withDefaults)

lemma kafka_version_withDefaults:
  "GetString (withDefaults v p) (configRootOf p @ ''.kafka-version'') =
     (case config v (configRootOf p @ ''.kafka-version'') of
        None \<Rightarrow> ''2.8.0'' | Some x \<Rightarrow> asString x)"
  by (simp add: withDefaults_def GetString_def viper_find_SetDefault_same config_SetDefault
      stringSetting_def split: option.split)

lemma withDefaults_idem: "withDefaults (withDefaults v p) p = withDefaults v p"
  unfolding withDefaults_def by (rule SetDefault_twice) simp

text \<open>
  The keys the later blocks read are none of the two defaulted keys: those of the profile
  end differently, those of the \<open>tls\<close>, \<open>sasl\<close> and \<open>iam\<close> sections start differently.
\<close>

lemma profile_keys [simp]:
  "configRootOf p \<noteq> configRootOf p @ ''.client-id''"
  "configRootOf p \<noteq> configRootOf p @ ''.kafka-version''"
  "configRootOf p @ ''.tls'' \<noteq> configRootOf p @ ''.client-id''"
  "configRootOf p @ ''.tls'' \<noteq> configRootOf p @ ''.kafka-version''"
  "configRootOf p @ ''.sasl'' \<noteq> configRootOf p @ ''.client-id''"
  "configRootOf p @ ''.sasl'' \<noteq> configRootOf p @ ''.kafka-version''"
  "configRootOf p @ ''.iam'' \<noteq> configRootOf p @ ''.client-id''"
  "configRootOf p @ ''.iam'' \<noteq> configRootOf p @ ''.kafka-version''"
  by simp_all

lemma section_keys [simp]:
  "c \<noteq> CHR ''c'' \<Longrightarrow> c # x \<noteq> configRootOf p @ y"
  by (simp add: configRootOf_def)

section \<open>The builder, block by block\<close>

lemma build_eq:
  "GetSaramaConfigFromClientProfile e p v =
     (if p \<noteq> [] \<and> \<not> IsSet v (configRootOf p) then (Inl (UnknownClientProfile p), v)
      else (assemble e (withDefaults v p) p (configRootOf p), withDefaults v p))"
  by (simp add: GetSaramaConfigFromClientProfile_def Let_def withDefaults_def configRootOf_def)

lemma assemble_Inr:
  assumes "assemble e u p r = Inr c"
  obtains version c1 c2 where
    "parseKafkaVersion (ParseKafkaVersion e) (GetString u (r @ ''.kafka-version'')) = Inr version"
    "configureTLS e u r
       (NewConfig\<lparr>ClientID := GetString u (r @ ''.client-id''), Version := version,
                  Consumer_Return_Errors := True\<rparr>) = Inr c1"
    "configureIAM u p r (configureSASL u r c1) = Inr c2"
    "c = configureTimeouts u r c2"
  using assms by (auto simp: assemble_def Let_def split: sum.splits)

lemma assemble_blocks:
  assumes "parseKafkaVersion (ParseKafkaVersion e) (GetString u (r @ ''.kafka-version'')) = Inr version"
    "configureTLS e u r
       (NewConfig\<lparr>ClientID := GetString u (r @ ''.client-id''), Version := version,
                  Consumer_Return_Errors := True\<rparr>) = Inr c1"
    "configureIAM u p r (configureSASL u r c1) = Inr c2"
  shows "assemble e u p r = Inr (configureTimeouts u r c2)"
  using assms by (simp add: assemble_def Let_def)

lemma build_Inr:
  assumes "fst (GetSaramaConfigFromClientProfile e p v) = Inr c"
  shows "assemble e (withDefaults v p) p (configRootOf p) = Inr c"
  using assms by (simp add: build_eq split: if_splits)

lemma configureTLS_Enable:
  "configureTLS e u r c = Inr c1 \<Longrightarrow>
     Net_TLS_Enable c1 = (IsSet u (r @ ''.tls'') \<or> Net_TLS_Enable c)"
  by (auto simp: configureTLS_def Let_def split: if_splits sum.splits)

lemma configureSASL_TLS_Enable:
  "Net_TLS_Enable (configureSASL u r c) = Net_TLS_Enable c"
  by (simp add: configureSASL_def Let_def)

lemma configureIAM_fails:
  "GetString u (r @ ''.iam'') \<noteq> [] \<Longrightarrow>
   GetString u (''iam.'' @ GetString u (r @ ''.iam'') @ ''.region'') = [] \<or> \<not> Net_TLS_Enable c \<Longrightarrow>
   \<exists>err. configureIAM u p r c = Inl err"
  by (auto simp: configureIAM_def Let_def)

lemma configureTLS_noCA:
  assumes "IsSet u (r @ ''.tls'')"
    and "GetString u (''tls.'' @ GetString u (r @ ''.tls'') @ ''.cafile'') = []"
  shows "configureTLS e u r c =
           Inr (c\<lparr>Net_TLS_Enable := True,
                  Net_TLS_Config :=
                    Some \<lparr>RootCAs = None, Certificates = [],
                          InsecureSkipVerify =
                            GetBool u (''tls.'' @ GetString u (r @ ''.tls'') @ ''.noverify'')\<rparr>\<rparr>)"
  using assms by (simp add: configureTLS_def Let_def)

lemma configureTLS_pair:
  assumes "IsSet u (r @ ''.tls'')"
    and "GetString u (''tls.'' @ GetString u (r @ ''.tls'') @ ''.cafile'') \<noteq> []"
    and "GetString u (''tls.'' @ GetString u (r @ ''.tls'') @ ''.certfile'') \<noteq> []"
    and "GetString u (''tls.'' @ GetString u (r @ ''.tls'') @ ''.keyfile'') \<noteq> []"
    and "configureTLS e u r c = Inr c1"
  shows "\<exists>caCert cert.
           ReadFile e (GetString u (''tls.'' @ GetString u (r @ ''.tls'') @ ''.cafile'')) = Inr caCert
         \<and> LoadX509KeyPair e (GetString u (''tls.'' @ GetString u (r @ ''.tls'') @ ''.certfile''))
              (GetString u (''tls.'' @ GetString u (r @ ''.tls'') @ ''.keyfile'')) = Inr cert
         \<and> c1 = c\<lparr>Net_TLS_Enable := True,
                   Net_TLS_Config :=
                     Some \<lparr>RootCAs = Some [caCert], Certificates = [cert],
                           InsecureSkipVerify =
                             GetBool u (''tls.'' @ GetString u (r @ ''.tls'') @ ''.noverify'')\<rparr>\<rparr>"
  using assms by (auto simp: configureTLS_def Let_def split: sum.splits)

lemma configureTLS_loads:
  assumes "IsSet u (r @ ''.tls'')"
    and "GetString u (''tls.'' @ GetString u (r @ ''.tls'') @ ''.cafile'') = [] \<or>
         (\<exists>caCert. ReadFile e (GetString u (''tls.'' @ GetString u (r @ ''.tls'') @ ''.cafile''))
                     = Inr caCert) \<and>
         (GetString u (''tls.'' @ GetString u (r @ ''.tls'') @ ''.certfile'') = [] \<or>
          GetString u (''tls.'' @ GetString u (r @ ''.tls'') @ ''.keyfile'') = [] \<or>
          (\<exists>cert. LoadX509KeyPair e
                     (GetString u (''tls.'' @ GetString u (r @ ''.tls'') @ ''.certfile''))
                     (GetString u (''tls.'' @ GetString u (r @ ''.tls'') @ ''.keyfile''))
                   = Inr cert))"
  shows "\<exists>c1. configureTLS e u r c = Inr c1"
  using assms by (auto simp: configureTLS_def Let_def split: sum.splits)

lemma configureTLS_SASL_fields:
  assumes "configureTLS e u r c = Inr c1"
  shows "Net_SASL_Enable c1 = Net_SASL_Enable c"
    and "Net_SASL_Mechanism c1 = Net_SASL_Mechanism c"
    and "Net_SASL_SCRAMClientGeneratorFunc c1 = Net_SASL_SCRAMClientGeneratorFunc c"
    and "Net_SASL_Handshake c1 = Net_SASL_Handshake c"
    and "Net_SASL_User c1 = Net_SASL_User c"
    and "Net_SASL_Password c1 = Net_SASL_Password c"
    and "Net_SASL_TokenProvider c1 = Net_SASL_TokenProvider c"
  using assms by (auto simp: configureTLS_def Let_def split: if_splits sum.splits)

lemma configureSASL_TLS_Config:
  "Net_TLS_Config (configureSASL u r c) = Net_TLS_Config c"
  by (simp add: configureSASL_def Let_def)

lemma configureSASL_set:
  assumes "IsSet u (r @ ''.sasl'')"
  shows "Net_SASL_Enable (configureSASL u r c)"
    and "Net_SASL_Handshake (configureSASL u r c)
           = GetBool u (''sasl.'' @ GetString u (r @ ''.sasl'') @ ''.handshake-first'')"
    and "Net_SASL_User (configureSASL u r c)
           = GetString u (''sasl.'' @ GetString u (r @ ''.sasl'') @ ''.username'')"
    and "Net_SASL_Password (configureSASL u r c)
           = GetString u (''sasl.'' @ GetString u (r @ ''.sasl'') @ ''.password'')"
  using assms by (simp_all add: configureSASL_def Let_def)

lemma configureSASL_unrecognized:
  assumes "IsSet u (r @ ''.sasl'')"
    and "GetString u (''sasl.'' @ GetString u (r @ ''.sasl'') @ ''.mechanism'') \<noteq> ''SCRAM-SHA-256''"
    and "GetString u (''sasl.'' @ GetString u (r @ ''.sasl'') @ ''.mechanism'') \<noteq> ''SCRAM-SHA-512''"
  shows "Net_SASL_Mechanism (configureSASL u r c) = Net_SASL_Mechanism c"
    and "Net_SASL_SCRAMClientGeneratorFunc (configureSASL u r c)
           = Net_SASL_SCRAMClientGeneratorFunc c"
  using assms by (simp_all add: configureSASL_def Let_def)

lemma configureIAM_absent:
  "GetString u (r @ ''.iam'') = [] \<Longrightarrow> configureIAM u p r c = Inr c"
  by (simp add: configureIAM_def)

lemma configureIAM_named:
  assumes "GetString u (r @ ''.iam'') \<noteq> []"
    and "GetString u (''iam.'' @ GetString u (r @ ''.iam'') @ ''.region'') \<noteq> []"
    and "Net_TLS_Enable c"
  shows "configureIAM u p r c =
           Inr (c\<lparr>Net_SASL_Enable := True,
                  Net_SASL_Handshake := True,
                  Net_SASL_Mechanism := SASLTypeOAuth,
                  Net_SASL_TokenProvider :=
                    Some \<lparr>region = GetString u (''iam.'' @ GetString u (r @ ''.iam'') @ ''.region''),
                          roleArn = GetString u (''iam.'' @ GetString u (r @ ''.iam'') @ ''.role-arn''),
                          profile = GetString u (''iam.'' @ GetString u (r @ ''.iam'') @ ''.profile'')\<rparr>\<rparr>)"
  using assms by (simp add: configureIAM_def Let_def)

lemma configureIAM_Inr:
  assumes "configureIAM u p r c = Inr c2"
  shows "GetString u (r @ ''.iam'') = [] \<and> c2 = c
       \<or> GetString u (r @ ''.iam'') \<noteq> []
         \<and> GetString u (''iam.'' @ GetString u (r @ ''.iam'') @ ''.region'') \<noteq> []
         \<and> Net_TLS_Enable c
         \<and> c2 = c\<lparr>Net_SASL_Enable := True,
                  Net_SASL_Handshake := True,
                  Net_SASL_Mechanism := SASLTypeOAuth,
                  Net_SASL_TokenProvider :=
                    Some \<lparr>region = GetString u (''iam.'' @ GetString u (r @ ''.iam'') @ ''.region''),
                          roleArn = GetString u (''iam.'' @ GetString u (r @ ''.iam'') @ ''.role-arn''),
                          profile = GetString u (''iam.'' @ GetString u (r @ ''.iam'') @ ''.profile'')\<rparr>\<rparr>"
  using assms by (auto simp: configureIAM_def Let_def split: if_splits)

lemma configureTimeouts_fields:
  "Net_TLS_Enable (configureTimeouts u r c) = Net_TLS_Enable c"
  "Net_TLS_Config (configureTimeouts u r c) = Net_TLS_Config c"
  "Net_SASL_Enable (configureTimeouts u r c) = Net_SASL_Enable c"
  "Net_SASL_Mechanism (configureTimeouts u r c) = Net_SASL_Mechanism c"
  "Net_SASL_SCRAMClientGeneratorFunc (configureTimeouts u r c) = Net_SASL_SCRAMClientGeneratorFunc c"
  "Net_SASL_Handshake (configureTimeouts u r c) = Net_SASL_Handshake c"
  "Net_SASL_User (configureTimeouts u r c) = Net_SASL_User c"
  "Net_SASL_Password (configureTimeouts u r c) = Net_SASL_Password c"
  "Net_SASL_TokenProvider (configureTimeouts u r c) = Net_SASL_TokenProvider c"
  by (simp_all add: configureTimeouts_def Let_def)

lemma after_TLS_fields:
  assumes "configureIAM u p r (configureSASL u r c1) = Inr c2"
  shows "Net_TLS_Enable (configureTimeouts u r c2) = Net_TLS_Enable c1"
    and "Net_TLS_Config (configureTimeouts u r c2) = Net_TLS_Config c1"
  using configureIAM_Inr [OF assms]
  by (auto simp: configureTimeouts_fields configureSASL_TLS_Enable configureSASL_TLS_Config)

section \<open>The legacy fallback table\<close>

lemmas legacy_table = legacyKafkaVersionFallback_def legacyKafkaVersionFallback_entries_def

text \<open>
  C1, as the specification states it, fails on the table. \<open>"0.8"\<close> resolves to 0.8.2.0
  although the table knows 0.8.2.2 under the same minor, \<open>"0.10"\<close> resolves to 0.10.0.0
  although the table knows 0.10.2.0, and \<open>"0.8.0"\<close> and \<open>"0.8.1"\<close> resolve to two
  different versions.
\<close>

theorem legacy_minor_only_not_latest:
  "\<not> spec_resolves_to_latest_under_minor ''0.8''
   \<and> \<not> spec_resolves_to_latest_under_minor ''0.10''
   \<and> legacyKafkaVersionFallback ''0.8.0'' \<noteq> legacyKafkaVersionFallback ''0.8.1''"
  by (simp add: spec_resolves_to_latest_under_minor_def knownUnderMinor_def sameMinor_def
      IsAtLeast_def legacy_table)

text \<open>
  C1, amended. The minor-only keys of the table are \<open>"0.8"\<close>, \<open>"0.9"\<close>, \<open>"0.10"\<close> and
  \<open>"0.11"\<close>. \<open>"0.9"\<close> and \<open>"0.11"\<close> resolve to the latest version the table knows
  under their minor (0.9.0.0 and 0.11.0.0). \<open>"0.8"\<close> and \<open>"0.10"\<close> do not: they resolve
  to 0.8.2.0 and 0.10.0.0, the earliest version the table knows under their minor and the
  one their \<open>.0\<close> point release resolves to, while the table holds the later 0.8.2.2
  and 0.10.2.0. The old point releases \<open>"0.8.0"\<close> and \<open>"0.8.1"\<close> resolve to two
  different versions, 0.8.2.0 and 0.8.2.1.
\<close>

theorem legacy_minor_only_resolution:
  "map fst (filter (\<lambda>(key, version). minorOnly key) legacyKafkaVersionFallback_entries)
     = [''0.8'', ''0.9'', ''0.10'', ''0.11'']
   \<and> legacyKafkaVersionFallback ''0.9'' = Some V0_9_0_0
   \<and> spec_resolves_to_latest_under_minor ''0.9''
   \<and> legacyKafkaVersionFallback ''0.11'' = Some V0_11_0_0
   \<and> spec_resolves_to_latest_under_minor ''0.11''
   \<and> legacyKafkaVersionFallback ''0.8'' = Some V0_8_2_0
   \<and> legacyKafkaVersionFallback ''0.8'' = legacyKafkaVersionFallback ''0.8.0''
   \<and> resolves_to_earliest_under_minor ''0.8''
   \<and> \<not> spec_resolves_to_latest_under_minor ''0.8''
   \<and> legacyKafkaVersionFallback ''0.8.2'' = Some V0_8_2_2
   \<and> sameMinor V0_8_2_0 V0_8_2_2 \<and> \<not> IsAtLeast V0_8_2_0 V0_8_2_2
   \<and> legacyKafkaVersionFallback ''0.10'' = Some V0_10_0_0
   \<and> legacyKafkaVersionFallback ''0.10'' = legacyKafkaVersionFallback ''0.10.0''
   \<and> resolves_to_earliest_under_minor ''0.10''
   \<and> \<not> spec_resolves_to_latest_under_minor ''0.10''
   \<and> legacyKafkaVersionFallback ''0.10.2'' = Some V0_10_2_0
   \<and> sameMinor V0_10_0_0 V0_10_2_0 \<and> \<not> IsAtLeast V0_10_0_0 V0_10_2_0
   \<and> legacyKafkaVersionFallback ''0.8.0'' = Some V0_8_2_0
   \<and> legacyKafkaVersionFallback ''0.8.1'' = Some V0_8_2_1
   \<and> V0_8_2_0 \<noteq> V0_8_2_1"
  by (simp add: resolves_to_earliest_under_minor_def spec_resolves_to_latest_under_minor_def
      knownUnderMinor_def sameMinor_def IsAtLeast_def minorOnly_def legacy_table)

section \<open>Version resolution\<close>

text \<open>
  C4. Resolution is total. For every strict parser \<open>P\<close> and every string \<open>s\<close>,
  \<open>parseKafkaVersion\<close> either returns a version, which is the strictly parsed one or,
  when strict parsing fails, the table's entry for \<open>s\<close>; or it panics with
  "Unknown Kafka Version". A string that the strict parser rejects and the table does
  not hold always panics (the version the library hands back next to its error is never
  used), and the panic is the outcome of the whole build of a profile that asks for
  that string.
\<close>

theorem version_resolution_total:
  "((\<exists>version. parseKafkaVersion P s = Inr version
       \<and> (P s = (version, None)
          \<or> (snd (P s) \<noteq> None \<and> legacyKafkaVersionFallback s = Some version)))
    \<or> (parseKafkaVersion P s = Inl (UnknownKafkaVersion s)
        \<and> snd (P s) \<noteq> None \<and> legacyKafkaVersionFallback s = None))
   \<and> (snd (P s) \<noteq> None \<and> legacyKafkaVersionFallback s = None
        \<longrightarrow> parseKafkaVersion P s = Inl (UnknownKafkaVersion s))
   \<and> (snd (P s) \<noteq> None \<and> legacyKafkaVersionFallback s = None
        \<and> ParseKafkaVersion e = P
        \<and> (profileName = [] \<or> IsSet v (''client-profile.'' @ profileName))
        \<and> (case config v (''client-profile.'' @ profileName @ ''.kafka-version'') of
             None \<Rightarrow> ''2.8.0'' | Some x \<Rightarrow> asString x) = s
        \<longrightarrow> fst (GetSaramaConfigFromClientProfile e profileName v)
              = Inl (UnknownKafkaVersion s))"
proof (intro conjI impI)
  show "(\<exists>version. parseKafkaVersion P s = Inr version
       \<and> (P s = (version, None)
          \<or> (snd (P s) \<noteq> None \<and> legacyKafkaVersionFallback s = Some version)))
    \<or> (parseKafkaVersion P s = Inl (UnknownKafkaVersion s)
        \<and> snd (P s) \<noteq> None \<and> legacyKafkaVersionFallback s = None)"
    by (cases "P s") (auto simp: parseKafkaVersion_def split: option.splits)
next
  assume "snd (P s) \<noteq> None \<and> legacyKafkaVersionFallback s = None"
  then show "parseKafkaVersion P s = Inl (UnknownKafkaVersion s)"
    by (cases "P s") (auto simp: parseKafkaVersion_def)
next
  assume a: "snd (P s) \<noteq> None \<and> legacyKafkaVersionFallback s = None
        \<and> ParseKafkaVersion e = P
        \<and> (profileName = [] \<or> IsSet v (''client-profile.'' @ profileName))
        \<and> (case config v (''client-profile.'' @ profileName @ ''.kafka-version'') of
             None \<Rightarrow> ''2.8.0'' | Some x \<Rightarrow> asString x) = s"
  then have unknown: "parseKafkaVersion (ParseKafkaVersion e) s = Inl (UnknownKafkaVersion s)"
    by (cases "P s") (auto simp: parseKafkaVersion_def)
  have requested: "GetString (withDefaults v profileName)
                     (configRootOf profileName @ ''.kafka-version'') = s"
    using a by (simp add: kafka_version_withDefaults) (simp add: configRootOf_def)
  have known: "\<not> (profileName \<noteq> [] \<and> \<not> IsSet v (configRootOf profileName))"
    using a by (auto simp: configRootOf_def)
  have "assemble e (withDefaults v profileName) profileName (configRootOf profileName)
          = Inl (UnknownKafkaVersion s)"
    by (simp add: assemble_def requested unknown)
  with known show "fst (GetSaramaConfigFromClientProfile e profileName v)
                     = Inl (UnknownKafkaVersion s)"
    by (auto simp: build_eq)
qed

theorem version_resolution_total_witness:
  "snd (sampleParser ''2.8'') \<noteq> None \<and> legacyKafkaVersionFallback ''2.8'' = None
   \<and> parseKafkaVersion sampleParser ''2.8'' = Inl (UnknownKafkaVersion ''2.8'')
   \<and> fst (GetSaramaConfigFromClientProfile sampleEnv ''typo'' sampleViper)
       = Inl (UnknownKafkaVersion ''2.8'')"
proof -
  have h1: "snd (sampleParser ''2.8'') \<noteq> None" by code_simp
  have h2: "legacyKafkaVersionFallback ''2.8'' = None" by code_simp
  have h3: "ParseKafkaVersion sampleEnv = sampleParser" by (simp add: sampleEnv_def)
  have h4: "IsSet sampleViper (''client-profile.'' @ ''typo'')" by code_simp
  have h5: "(case config sampleViper (''client-profile.'' @ ''typo'' @ ''.kafka-version'') of
               None \<Rightarrow> ''2.8.0'' | Some x \<Rightarrow> asString x) = ''2.8''" by code_simp
  from version_resolution_total [of sampleParser "''2.8''" sampleEnv "''typo''" sampleViper]
    h1 h2 h3 h4 h5
  show ?thesis by simp
qed

text \<open>
  When the strict parser rejects a string, the result is decided by the table alone.
\<close>

lemma parseKafkaVersion_fallback:
  "snd (P key) \<noteq> None \<Longrightarrow>
   parseKafkaVersion P key =
     (case legacyKafkaVersionFallback key of
        None \<Rightarrow> Inl (UnknownKafkaVersion key)
      | Some version \<Rightarrow> Inr version)"
  by (cases "P key") (auto simp: parseKafkaVersion_def)

text \<open>
  C5. Each of the thirteen keys of the fallback table resolves to the version the table
  documents for it, whenever the strict parser rejects the key: the empty string to
  0.10.2.0 (the default legacy version), \<open>"0.8.0"\<close> to 0.8.2.0, \<open>"0.8.1"\<close> to 0.8.2.1,
  \<open>"0.8.2"\<close> to 0.8.2.2, \<open>"0.8"\<close> to 0.8.2.0, \<open>"0.9.0"\<close> and \<open>"0.9"\<close> to 0.9.0.0,
  \<open>"0.10.0"\<close> to 0.10.0.0, \<open>"0.10.1"\<close> to 0.10.1.0, \<open>"0.10.2"\<close> to 0.10.2.0,
  \<open>"0.10"\<close> to 0.10.0.0, \<open>"0.11.0"\<close> and \<open>"0.11"\<close> to 0.11.0.0. The table has these
  thirteen keys and no other, and any key it holds resolves to its entry.
\<close>

theorem legacy_keys_resolve:
  "(snd (P []) \<noteq> None \<longrightarrow> parseKafkaVersion P [] = Inr V0_10_2_0)
   \<and> (snd (P ''0.8.0'') \<noteq> None \<longrightarrow> parseKafkaVersion P ''0.8.0'' = Inr V0_8_2_0)
   \<and> (snd (P ''0.8.1'') \<noteq> None \<longrightarrow> parseKafkaVersion P ''0.8.1'' = Inr V0_8_2_1)
   \<and> (snd (P ''0.8.2'') \<noteq> None \<longrightarrow> parseKafkaVersion P ''0.8.2'' = Inr V0_8_2_2)
   \<and> (snd (P ''0.8'') \<noteq> None \<longrightarrow> parseKafkaVersion P ''0.8'' = Inr V0_8_2_0)
   \<and> (snd (P ''0.9.0'') \<noteq> None \<longrightarrow> parseKafkaVersion P ''0.9.0'' = Inr V0_9_0_0)
   \<and> (snd (P ''0.9'') \<noteq> None \<longrightarrow> parseKafkaVersion P ''0.9'' = Inr V0_9_0_0)
   \<and> (snd (P ''0.10.0'') \<noteq> None \<longrightarrow> parseKafkaVersion P ''0.10.0'' = Inr V0_10_0_0)
   \<and> (snd (P ''0.10.1'') \<noteq> None \<longrightarrow> parseKafkaVersion P ''0.10.1'' = Inr V0_10_1_0)
   \<and> (snd (P ''0.10.2'') \<noteq> None \<longrightarrow> parseKafkaVersion P ''0.10.2'' = Inr V0_10_2_0)
   \<and> (snd (P ''0.10'') \<noteq> None \<longrightarrow> parseKafkaVersion P ''0.10'' = Inr V0_10_0_0)
   \<and> (snd (P ''0.11.0'') \<noteq> None \<longrightarrow> parseKafkaVersion P ''0.11.0'' = Inr V0_11_0_0)
   \<and> (snd (P ''0.11'') \<noteq> None \<longrightarrow> parseKafkaVersion P ''0.11'' = Inr V0_11_0_0)
   \<and> map fst legacyKafkaVersionFallback_entries =
        [[], ''0.8.0'', ''0.8.1'', ''0.8.2'', ''0.8'', ''0.9.0'', ''0.9'', ''0.10.0'',
         ''0.10.1'', ''0.10.2'', ''0.10'', ''0.11.0'', ''0.11'']
   \<and> (\<forall>key version. snd (P key) \<noteq> None \<and> legacyKafkaVersionFallback key = Some version
         \<longrightarrow> parseKafkaVersion P key = Inr version)"
proof -
  have table:
    "legacyKafkaVersionFallback [] = Some V0_10_2_0"
    "legacyKafkaVersionFallback ''0.8.0'' = Some V0_8_2_0"
    "legacyKafkaVersionFallback ''0.8.1'' = Some V0_8_2_1"
    "legacyKafkaVersionFallback ''0.8.2'' = Some V0_8_2_2"
    "legacyKafkaVersionFallback ''0.8'' = Some V0_8_2_0"
    "legacyKafkaVersionFallback ''0.9.0'' = Some V0_9_0_0"
    "legacyKafkaVersionFallback ''0.9'' = Some V0_9_0_0"
    "legacyKafkaVersionFallback ''0.10.0'' = Some V0_10_0_0"
    "legacyKafkaVersionFallback ''0.10.1'' = Some V0_10_1_0"
    "legacyKafkaVersionFallback ''0.10.2'' = Some V0_10_2_0"
    "legacyKafkaVersionFallback ''0.10'' = Some V0_10_0_0"
    "legacyKafkaVersionFallback ''0.11.0'' = Some V0_11_0_0"
    "legacyKafkaVersionFallback ''0.11'' = Some V0_11_0_0"
    by (simp_all add: legacy_table)
  have keys: "map fst legacyKafkaVersionFallback_entries =
        [[], ''0.8.0'', ''0.8.1'', ''0.8.2'', ''0.8'', ''0.9.0'', ''0.9'', ''0.10.0'',
         ''0.10.1'', ''0.10.2'', ''0.10'', ''0.11.0'', ''0.11'']"
    by (simp add: legacyKafkaVersionFallback_entries_def)
  show ?thesis
    using keys by (intro conjI impI allI) (simp_all add: parseKafkaVersion_fallback table)
qed

theorem legacy_keys_resolve_witness:
  "parseKafkaVersion sampleParser [] = Inr V0_10_2_0
   \<and> parseKafkaVersion sampleParser ''0.8.0'' = Inr V0_8_2_0
   \<and> parseKafkaVersion sampleParser ''0.8.1'' = Inr V0_8_2_1
   \<and> parseKafkaVersion sampleParser ''0.8.2'' = Inr V0_8_2_2
   \<and> parseKafkaVersion sampleParser ''0.8'' = Inr V0_8_2_0
   \<and> parseKafkaVersion sampleParser ''0.9.0'' = Inr V0_9_0_0
   \<and> parseKafkaVersion sampleParser ''0.9'' = Inr V0_9_0_0
   \<and> parseKafkaVersion sampleParser ''0.10.0'' = Inr V0_10_0_0
   \<and> parseKafkaVersion sampleParser ''0.10.1'' = Inr V0_10_1_0
   \<and> parseKafkaVersion sampleParser ''0.10.2'' = Inr V0_10_2_0
   \<and> parseKafkaVersion sampleParser ''0.10'' = Inr V0_10_0_0
   \<and> parseKafkaVersion sampleParser ''0.11.0'' = Inr V0_11_0_0
   \<and> parseKafkaVersion sampleParser ''0.11'' = Inr V0_11_0_0"
proof -
  have rejected:
    "snd (sampleParser []) \<noteq> None" "snd (sampleParser ''0.8.0'') \<noteq> None"
    "snd (sampleParser ''0.8.1'') \<noteq> None" "snd (sampleParser ''0.8.2'') \<noteq> None"
    "snd (sampleParser ''0.8'') \<noteq> None" "snd (sampleParser ''0.9.0'') \<noteq> None"
    "snd (sampleParser ''0.9'') \<noteq> None" "snd (sampleParser ''0.10.0'') \<noteq> None"
    "snd (sampleParser ''0.10.1'') \<noteq> None" "snd (sampleParser ''0.10.2'') \<noteq> None"
    "snd (sampleParser ''0.10'') \<noteq> None" "snd (sampleParser ''0.11.0'') \<noteq> None"
    "snd (sampleParser ''0.11'') \<noteq> None"
    by (simp_all add: sampleParser_def)
  from legacy_keys_resolve [of sampleParser] rejected show ?thesis by blast
qed

section \<open>TLS resolution\<close>

text \<open>
  C7. For every profile that names a TLS sub-profile whose CA bundle path is empty,
  the configuration the build returns has TLS enabled, with a TLS configuration that is
  present and empty (no root pool, no certificates), and with the sub-profile's
  skip-verification flag.
\<close>

theorem tls_without_ca_bundle:
  assumes tls: "IsSet v (''client-profile.'' @ profileName @ ''.tls'')"
    and name: "GetString v (''client-profile.'' @ profileName @ ''.tls'') = tlsName"
    and noca: "GetString v (''tls.'' @ tlsName @ ''.cafile'') = []"
    and built: "fst (GetSaramaConfigFromClientProfile e profileName v) = Inr c"
  shows "Net_TLS_Enable c
       \<and> Net_TLS_Config c =
           Some \<lparr>RootCAs = None, Certificates = [],
                 InsecureSkipVerify = GetBool v (''tls.'' @ tlsName @ ''.noverify'')\<rparr>"
proof -
  let ?r = "configRootOf profileName" and ?w = "withDefaults v profileName"
  have tls': "IsSet ?w (?r @ ''.tls'')"
    using tls by (simp add: reads_withDefaults configRootOf_def)
  have name': "GetString ?w (?r @ ''.tls'') = tlsName"
    using name by (simp add: reads_withDefaults configRootOf_def)
  have noca': "GetString ?w (''tls.'' @ GetString ?w (?r @ ''.tls'') @ ''.cafile'') = []"
    using noca by (simp add: name' reads_withDefaults)
  have noverify: "GetBool ?w (''tls.'' @ tlsName @ ''.noverify'')
                    = GetBool v (''tls.'' @ tlsName @ ''.noverify'')"
    by (simp add: reads_withDefaults)
  from build_Inr [OF built] obtain version c1 c2 where
    c1: "configureTLS e ?w ?r
           (NewConfig\<lparr>ClientID := GetString ?w (?r @ ''.client-id''), Version := version,
                      Consumer_Return_Errors := True\<rparr>) = Inr c1"
    and c2: "configureIAM ?w profileName ?r (configureSASL ?w ?r c1) = Inr c2"
    and c: "c = configureTimeouts ?w ?r c2"
    by (rule assemble_Inr)
  from c1 noverify have "Net_TLS_Enable c1
       \<and> Net_TLS_Config c1 =
           Some \<lparr>RootCAs = None, Certificates = [],
                 InsecureSkipVerify = GetBool v (''tls.'' @ tlsName @ ''.noverify'')\<rparr>"
    by (auto simp: configureTLS_noCA [OF tls' noca'] name')
  then show ?thesis
    by (simp add: c after_TLS_fields [OF c2])
qed

theorem tls_without_ca_bundle_witness:
  "IsSet sampleViper ''client-profile.insecure.tls''
   \<and> GetString sampleViper ''client-profile.insecure.tls'' = ''msk-tls''
   \<and> GetString sampleViper ''tls.msk-tls.cafile'' = []
   \<and> GetBool sampleViper ''tls.msk-tls.noverify''
   \<and> (case fst (GetSaramaConfigFromClientProfile sampleEnv ''insecure'' sampleViper) of
        Inl err \<Rightarrow> False
      | Inr c \<Rightarrow> Net_TLS_Enable c
          \<and> Net_TLS_Config c =
              Some \<lparr>RootCAs = None, Certificates = [], InsecureSkipVerify = True\<rparr>)"
proof -
  have h1: "IsSet sampleViper (''client-profile.'' @ ''insecure'' @ ''.tls'')" by code_simp
  have h2: "GetString sampleViper (''client-profile.'' @ ''insecure'' @ ''.tls'') = ''msk-tls''"
    by code_simp
  have h3: "GetString sampleViper (''tls.'' @ ''msk-tls'' @ ''.cafile'') = []" by code_simp
  have h4: "GetBool sampleViper (''tls.'' @ ''msk-tls'' @ ''.noverify'')" by code_simp
  have "case fst (GetSaramaConfigFromClientProfile sampleEnv ''insecure'' sampleViper) of
          Inl err \<Rightarrow> False | Inr c \<Rightarrow> True"
    by code_simp
  then obtain c where built:
    "fst (GetSaramaConfigFromClientProfile sampleEnv ''insecure'' sampleViper) = Inr c"
    by (auto split: sum.splits)
  from tls_without_ca_bundle [OF h1 h2 h3 built] h1 h2 h3 h4 built
  show ?thesis by simp
qed

text \<open>
  C2. The claim is what the builder's own comment promises (a bad certificate file
  panics, the configuration carries the TLS settings of the profile), and the builder
  misses it when no CA bundle is named: the call that loads the pair stands inside the
  branch for a non-empty CA path. The sub-profile \<open>client-cert\<close> names a certificate
  file and a key file, both loadable, and no CA bundle: the build succeeds and the
  configuration holds no certificate. The sub-profile \<open>lost-cert\<close> names a certificate
  file that cannot be read, and no CA bundle: the build succeeds all the same.
\<close>

theorem client_pair_skipped_without_ca:
  "IsSet sampleViper ''client-profile.client-cert.tls''
   \<and> GetString sampleViper ''client-profile.client-cert.tls'' = ''client-cert''
   \<and> GetString sampleViper ''tls.client-cert.certfile'' = ''cert.pem''
   \<and> GetString sampleViper ''tls.client-cert.keyfile'' = ''key.pem''
   \<and> GetString sampleViper ''tls.client-cert.cafile'' = []
   \<and> LoadX509KeyPair sampleEnv ''cert.pem'' ''key.pem''
       = Inr \<lparr>Certificate = [[48, 130]], PrivateKey = [48, 129]\<rparr>
   \<and> fst (GetSaramaConfigFromClientProfile sampleEnv ''client-cert'' sampleViper)
       = Inr \<lparr>ClientID = ''burrow-lagchecker'', Version = newKafkaVersion 2 8 0 0,
               Consumer_Return_Errors = True, Net_TLS_Enable = True,
               Net_TLS_Config =
                 Some \<lparr>RootCAs = None, Certificates = [], InsecureSkipVerify = False\<rparr>,
               Net_SASL_Enable = False, Net_SASL_Mechanism = [],
               Net_SASL_SCRAMClientGeneratorFunc = None, Net_SASL_Handshake = True,
               Net_SASL_User = [], Net_SASL_Password = [],
               Net_SASL_TokenProvider = None, Net_DialTimeout = 30000000000,
               Net_ReadTimeout = 30000000000\<rparr>
   \<and> IsSet sampleViper ''client-profile.lost-cert.tls''
   \<and> GetString sampleViper ''client-profile.lost-cert.tls'' = ''lost-cert''
   \<and> GetString sampleViper ''tls.lost-cert.certfile'' = ''missing.pem''
   \<and> GetString sampleViper ''tls.lost-cert.keyfile'' = ''key.pem''
   \<and> GetString sampleViper ''tls.lost-cert.cafile'' = []
   \<and> LoadX509KeyPair sampleEnv ''missing.pem'' ''key.pem'' = Inl ''no such file''
   \<and> fst (GetSaramaConfigFromClientProfile sampleEnv ''lost-cert'' sampleViper)
       = Inr \<lparr>ClientID = ''burrow-lagchecker'', Version = newKafkaVersion 2 8 0 0,
               Consumer_Return_Errors = True, Net_TLS_Enable = True,
               Net_TLS_Config =
                 Some \<lparr>RootCAs = None, Certificates = [], InsecureSkipVerify = False\<rparr>,
               Net_SASL_Enable = False, Net_SASL_Mechanism = [],
               Net_SASL_SCRAMClientGeneratorFunc = None, Net_SASL_Handshake = True,
               Net_SASL_User = [], Net_SASL_Password = [],
               Net_SASL_TokenProvider = None, Net_DialTimeout = 30000000000,
               Net_ReadTimeout = 30000000000\<rparr>"
  by code_simp

text \<open>
  The sibling branch does what the claim says. For every profile whose TLS sub-profile
  gives a certificate file path, a key file path and a CA bundle path, every
  configuration the build returns holds the CA bundle that was read and exactly the
  loaded certificate/key pair; so the build fails when the CA bundle or the pair cannot
  be loaded.
\<close>

theorem client_pair_loaded_when_ca_given:
  assumes tls: "IsSet v (''client-profile.'' @ profileName @ ''.tls'')"
    and name: "GetString v (''client-profile.'' @ profileName @ ''.tls'') = tlsName"
    and cert: "GetString v (''tls.'' @ tlsName @ ''.certfile'') = certFile" "certFile \<noteq> []"
    and key: "GetString v (''tls.'' @ tlsName @ ''.keyfile'') = keyFile" "keyFile \<noteq> []"
    and ca: "GetString v (''tls.'' @ tlsName @ ''.cafile'') = caFile" "caFile \<noteq> []"
  shows "(\<forall>c. fst (GetSaramaConfigFromClientProfile e profileName v) = Inr c \<longrightarrow>
            (\<exists>caCert pair.
               ReadFile e caFile = Inr caCert
             \<and> LoadX509KeyPair e certFile keyFile = Inr pair
             \<and> Net_TLS_Enable c
             \<and> Net_TLS_Config c =
                 Some \<lparr>RootCAs = Some [caCert], Certificates = [pair],
                       InsecureSkipVerify = GetBool v (''tls.'' @ tlsName @ ''.noverify'')\<rparr>))
       \<and> ((\<exists>msg. ReadFile e caFile = Inl msg) \<or> (\<exists>msg. LoadX509KeyPair e certFile keyFile = Inl msg)
            \<longrightarrow> (\<exists>err. fst (GetSaramaConfigFromClientProfile e profileName v) = Inl err))"
proof -
  let ?r = "configRootOf profileName" and ?w = "withDefaults v profileName"
  have tls': "IsSet ?w (?r @ ''.tls'')"
    using tls by (simp add: reads_withDefaults configRootOf_def)
  have name': "GetString ?w (?r @ ''.tls'') = tlsName"
    using name by (simp add: reads_withDefaults configRootOf_def)
  have reads:
    "GetString ?w (''tls.'' @ GetString ?w (?r @ ''.tls'') @ ''.cafile'') = caFile"
    "GetString ?w (''tls.'' @ GetString ?w (?r @ ''.tls'') @ ''.certfile'') = certFile"
    "GetString ?w (''tls.'' @ GetString ?w (?r @ ''.tls'') @ ''.keyfile'') = keyFile"
    "GetBool ?w (''tls.'' @ GetString ?w (?r @ ''.tls'') @ ''.noverify'')
       = GetBool v (''tls.'' @ tlsName @ ''.noverify'')"
    using ca(1) cert(1) key(1) by (simp_all add: name' reads_withDefaults)
  have loaded: "\<exists>caCert pair.
               ReadFile e caFile = Inr caCert
             \<and> LoadX509KeyPair e certFile keyFile = Inr pair
             \<and> Net_TLS_Enable c
             \<and> Net_TLS_Config c =
                 Some \<lparr>RootCAs = Some [caCert], Certificates = [pair],
                       InsecureSkipVerify = GetBool v (''tls.'' @ tlsName @ ''.noverify'')\<rparr>"
    if built: "fst (GetSaramaConfigFromClientProfile e profileName v) = Inr c" for c
  proof -
    from build_Inr [OF built] obtain version c1 c2 where
      c1: "configureTLS e ?w ?r
             (NewConfig\<lparr>ClientID := GetString ?w (?r @ ''.client-id''), Version := version,
                        Consumer_Return_Errors := True\<rparr>) = Inr c1"
      and c2: "configureIAM ?w profileName ?r (configureSASL ?w ?r c1) = Inr c2"
      and c: "c = configureTimeouts ?w ?r c2"
      by (rule assemble_Inr)
    have later: "Net_TLS_Config c = Net_TLS_Config c1" "Net_TLS_Enable c = Net_TLS_Enable c1"
      by (simp_all add: c after_TLS_fields [OF c2])
    have "\<exists>caCert cert.
           ReadFile e (GetString ?w (''tls.'' @ GetString ?w (?r @ ''.tls'') @ ''.cafile'')) = Inr caCert
         \<and> LoadX509KeyPair e (GetString ?w (''tls.'' @ GetString ?w (?r @ ''.tls'') @ ''.certfile''))
              (GetString ?w (''tls.'' @ GetString ?w (?r @ ''.tls'') @ ''.keyfile'')) = Inr cert
         \<and> c1 = NewConfig\<lparr>ClientID := GetString ?w (?r @ ''.client-id''), Version := version,
                      Consumer_Return_Errors := True\<rparr>\<lparr>Net_TLS_Enable := True,
                   Net_TLS_Config :=
                     Some \<lparr>RootCAs = Some [caCert], Certificates = [cert],
                           InsecureSkipVerify =
                             GetBool ?w (''tls.'' @ GetString ?w (?r @ ''.tls'') @ ''.noverify'')\<rparr>\<rparr>"
      using ca(2) cert(2) key(2) reads(1,2,3)
      by (intro configureTLS_pair [OF tls' _ _ _ c1]) simp_all
    then obtain caCert pair where
      "ReadFile e caFile = Inr caCert" "LoadX509KeyPair e certFile keyFile = Inr pair"
      "Net_TLS_Enable c1"
      "Net_TLS_Config c1 =
         Some \<lparr>RootCAs = Some [caCert], Certificates = [pair],
               InsecureSkipVerify = GetBool v (''tls.'' @ tlsName @ ''.noverify'')\<rparr>"
      using reads by auto
    then show ?thesis by (auto simp: later)
  qed
  show ?thesis
  proof (intro conjI allI impI)
    fix c
    assume "fst (GetSaramaConfigFromClientProfile e profileName v) = Inr c"
    then show "\<exists>caCert pair.
               ReadFile e caFile = Inr caCert
             \<and> LoadX509KeyPair e certFile keyFile = Inr pair
             \<and> Net_TLS_Enable c
             \<and> Net_TLS_Config c =
                 Some \<lparr>RootCAs = Some [caCert], Certificates = [pair],
                       InsecureSkipVerify = GetBool v (''tls.'' @ tlsName @ ''.noverify'')\<rparr>"
      by (rule loaded)
  next
    assume unreadable: "(\<exists>msg. ReadFile e caFile = Inl msg)
                        \<or> (\<exists>msg. LoadX509KeyPair e certFile keyFile = Inl msg)"
    show "\<exists>err. fst (GetSaramaConfigFromClientProfile e profileName v) = Inl err"
    proof (cases "fst (GetSaramaConfigFromClientProfile e profileName v)")
      case (Inl err)
      then show ?thesis by blast
    next
      case (Inr c)
      from loaded [OF Inr] unreadable show ?thesis by auto
    qed
  qed
qed

theorem client_pair_loaded_when_ca_given_witness:
  "IsSet sampleViper ''client-profile.mutual.tls''
   \<and> GetString sampleViper ''client-profile.mutual.tls'' = ''mutual''
   \<and> GetString sampleViper ''tls.mutual.certfile'' = ''cert.pem''
   \<and> GetString sampleViper ''tls.mutual.keyfile'' = ''key.pem''
   \<and> GetString sampleViper ''tls.mutual.cafile'' = ''ca.pem''
   \<and> (case fst (GetSaramaConfigFromClientProfile sampleEnv ''mutual'' sampleViper) of
        Inl err \<Rightarrow> False
      | Inr c \<Rightarrow>
          Net_TLS_Enable c
          \<and> Net_TLS_Config c =
              Some \<lparr>RootCAs = Some [[45, 45, 45]],
                    Certificates = [\<lparr>Certificate = [[48, 130]], PrivateKey = [48, 129]\<rparr>],
                    InsecureSkipVerify = False\<rparr>)
   \<and> IsSet sampleViper ''client-profile.bad-pair.tls''
   \<and> GetString sampleViper ''client-profile.bad-pair.tls'' = ''bad-pair''
   \<and> GetString sampleViper ''tls.bad-pair.certfile'' = ''missing.pem''
   \<and> GetString sampleViper ''tls.bad-pair.keyfile'' = ''key.pem''
   \<and> GetString sampleViper ''tls.bad-pair.cafile'' = ''ca.pem''
   \<and> LoadX509KeyPair sampleEnv ''missing.pem'' ''key.pem'' = Inl ''no such file''
   \<and> (case fst (GetSaramaConfigFromClientProfile sampleEnv ''bad-pair'' sampleViper) of
        Inl err \<Rightarrow> err = CannotReadCertOrKey ''no such file''
      | Inr c \<Rightarrow> False)"
proof -
  have h1: "IsSet sampleViper (''client-profile.'' @ ''mutual'' @ ''.tls'')" by code_simp
  have h2: "GetString sampleViper (''client-profile.'' @ ''mutual'' @ ''.tls'') = ''mutual''"
    by code_simp
  have h3: "GetString sampleViper (''tls.'' @ ''mutual'' @ ''.certfile'') = ''cert.pem''"
    by code_simp
  have h4: "GetString sampleViper (''tls.'' @ ''mutual'' @ ''.keyfile'') = ''key.pem''"
    by code_simp
  have h5: "GetString sampleViper (''tls.'' @ ''mutual'' @ ''.cafile'') = ''ca.pem''"
    by code_simp
  have h6: "\<not> GetBool sampleViper (''tls.'' @ ''mutual'' @ ''.noverify'')" by code_simp
  have files: "ReadFile sampleEnv ''ca.pem'' = Inr [45, 45, 45]"
    "LoadX509KeyPair sampleEnv ''cert.pem'' ''key.pem''
       = Inr \<lparr>Certificate = [[48, 130]], PrivateKey = [48, 129]\<rparr>"
    by (simp_all add: sampleEnv_def)
  have "case fst (GetSaramaConfigFromClientProfile sampleEnv ''mutual'' sampleViper) of
          Inl err \<Rightarrow> False | Inr c \<Rightarrow> True"
    by code_simp
  then obtain c where built:
    "fst (GetSaramaConfigFromClientProfile sampleEnv ''mutual'' sampleViper) = Inr c"
    by (auto split: sum.splits)
  have good: "case fst (GetSaramaConfigFromClientProfile sampleEnv ''mutual'' sampleViper) of
        Inl err \<Rightarrow> False
      | Inr c \<Rightarrow>
          Net_TLS_Enable c
          \<and> Net_TLS_Config c =
              Some \<lparr>RootCAs = Some [[45, 45, 45]],
                    Certificates = [\<lparr>Certificate = [[48, 130]], PrivateKey = [48, 129]\<rparr>],
                    InsecureSkipVerify = False\<rparr>"
    using client_pair_loaded_when_ca_given [OF h1 h2 h3 _ h4 _ h5, of sampleEnv] h6 files built
    by simp
  have g1: "IsSet sampleViper (''client-profile.'' @ ''bad-pair'' @ ''.tls'')" by code_simp
  have g2: "GetString sampleViper (''client-profile.'' @ ''bad-pair'' @ ''.tls'') = ''bad-pair''"
    by code_simp
  have g3: "GetString sampleViper (''tls.'' @ ''bad-pair'' @ ''.certfile'') = ''missing.pem''"
    by code_simp
  have g4: "GetString sampleViper (''tls.'' @ ''bad-pair'' @ ''.keyfile'') = ''key.pem''"
    by code_simp
  have g5: "GetString sampleViper (''tls.'' @ ''bad-pair'' @ ''.cafile'') = ''ca.pem''"
    by code_simp
  have g6: "LoadX509KeyPair sampleEnv ''missing.pem'' ''key.pem'' = Inl ''no such file''"
    by (simp add: sampleEnv_def)
  have g7: "case fst (GetSaramaConfigFromClientProfile sampleEnv ''bad-pair'' sampleViper) of
              Inl err \<Rightarrow> err = CannotReadCertOrKey ''no such file''
            | Inr c \<Rightarrow> True"
    by code_simp
  have bad: "case fst (GetSaramaConfigFromClientProfile sampleEnv ''bad-pair'' sampleViper) of
        Inl err \<Rightarrow> err = CannotReadCertOrKey ''no such file''
      | Inr c \<Rightarrow> False"
    using client_pair_loaded_when_ca_given [OF g1 g2 g3 _ g4 _ g5, of sampleEnv] g6 g7
    by (auto split: sum.splits)
  from good bad h1 h2 h3 h4 h5 g1 g2 g3 g4 g5 g6 show ?thesis by simp
qed

section \<open>Cloud-identity resolution\<close>

text \<open>
  C3. For every profile that names an IAM sub-profile, the build ends in a panic when
  the sub-profile's region is empty, and it ends in a panic when the profile names no
  TLS sub-profile, whatever the other settings are.
\<close>

theorem iam_requires_region_and_tls:
  assumes iam: "GetString v (''client-profile.'' @ profileName @ ''.iam'') = iamName"
      "iamName \<noteq> []"
    and bad: "GetString v (''iam.'' @ iamName @ ''.region'') = []
              \<or> \<not> IsSet v (''client-profile.'' @ profileName @ ''.tls'')"
  shows "\<exists>err. fst (GetSaramaConfigFromClientProfile e profileName v) = Inl err"
proof -
  let ?r = "configRootOf profileName" and ?w = "withDefaults v profileName"
  have iam': "GetString ?w (?r @ ''.iam'') = iamName"
    using iam(1) by (simp add: reads_withDefaults configRootOf_def)
  have region: "GetString ?w (''iam.'' @ iamName @ ''.region'')
                  = GetString v (''iam.'' @ iamName @ ''.region'')"
    by (simp add: reads_withDefaults)
  have tls: "IsSet ?w (?r @ ''.tls'') = IsSet v (''client-profile.'' @ profileName @ ''.tls'')"
    by (simp add: reads_withDefaults configRootOf_def)
  have "\<exists>err. assemble e ?w profileName ?r = Inl err"
  proof (cases "parseKafkaVersion (ParseKafkaVersion e) (GetString ?w (?r @ ''.kafka-version''))")
    case (Inl err)
    then show ?thesis by (simp add: assemble_def)
  next
    case (Inr version)
    let ?c = "NewConfig\<lparr>ClientID := GetString ?w (?r @ ''.client-id''), Version := version,
                Consumer_Return_Errors := True\<rparr>"
    show ?thesis
    proof (cases "configureTLS e ?w ?r ?c")
      case (Inl err)
      with Inr show ?thesis by (simp add: assemble_def Let_def)
    next
      case tlsok: (Inr c1)
      have en: "Net_TLS_Enable c1 = IsSet v (''client-profile.'' @ profileName @ ''.tls'')"
        using configureTLS_Enable [OF tlsok] tls by (simp add: NewConfig_def)
      have "\<exists>err. configureIAM ?w profileName ?r (configureSASL ?w ?r c1) = Inl err"
      proof (rule configureIAM_fails)
        show "GetString ?w (?r @ ''.iam'') \<noteq> []" using iam' iam(2) by simp
        show "GetString ?w (''iam.'' @ GetString ?w (?r @ ''.iam'') @ ''.region'') = []
              \<or> \<not> Net_TLS_Enable (configureSASL ?w ?r c1)"
          using bad en region iam' by (auto simp: configureSASL_TLS_Enable)
      qed
      with Inr tlsok show ?thesis by (auto simp: assemble_def Let_def)
    qed
  qed
  then show ?thesis by (auto simp: build_eq)
qed

theorem iam_requires_region_and_tls_witness:
  "GetString sampleViper ''client-profile.iam-no-tls.iam'' = ''eks''
   \<and> \<not> IsSet sampleViper ''client-profile.iam-no-tls.tls''
   \<and> GetString sampleViper ''iam.eks.region'' = ''us-west-1''
   \<and> (case fst (GetSaramaConfigFromClientProfile sampleEnv ''iam-no-tls'' sampleViper) of
        Inl err \<Rightarrow> err = IamNoTLSProfile ''iam-no-tls'' ''eks''
      | Inr c \<Rightarrow> False)
   \<and> GetString sampleViper ''client-profile.iam-no-region.iam'' = ''bare''
   \<and> IsSet sampleViper ''client-profile.iam-no-region.tls''
   \<and> GetString sampleViper ''iam.bare.region'' = []
   \<and> (case fst (GetSaramaConfigFromClientProfile sampleEnv ''iam-no-region'' sampleViper) of
        Inl err \<Rightarrow> err = IamRegionRequired ''bare''
      | Inr c \<Rightarrow> False)"
proof -
  have h1: "GetString sampleViper (''client-profile.'' @ ''iam-no-tls'' @ ''.iam'') = ''eks''"
    by code_simp
  have h2: "''eks'' \<noteq> []" by simp
  have h3: "\<not> IsSet sampleViper (''client-profile.'' @ ''iam-no-tls'' @ ''.tls'')" by code_simp
  have h4: "GetString sampleViper ''iam.eks.region'' = ''us-west-1''" by code_simp
  have h5: "case fst (GetSaramaConfigFromClientProfile sampleEnv ''iam-no-tls'' sampleViper) of
              Inl err \<Rightarrow> err = IamNoTLSProfile ''iam-no-tls'' ''eks''
            | Inr c \<Rightarrow> True"
    by code_simp
  have g1: "GetString sampleViper (''client-profile.'' @ ''iam-no-region'' @ ''.iam'') = ''bare''"
    by code_simp
  have g2: "''bare'' \<noteq> []" by simp
  have g3: "GetString sampleViper (''iam.'' @ ''bare'' @ ''.region'') = []" by code_simp
  have g4: "IsSet sampleViper ''client-profile.iam-no-region.tls''" by code_simp
  have g5: "case fst (GetSaramaConfigFromClientProfile sampleEnv ''iam-no-region'' sampleViper) of
              Inl err \<Rightarrow> err = IamRegionRequired ''bare''
            | Inr c \<Rightarrow> True"
    by code_simp
  from iam_requires_region_and_tls [OF h1 h2 disjI2 [OF h3], of sampleEnv]
    iam_requires_region_and_tls [OF g1 g2 disjI1 [OF g3], of sampleEnv]
    h1 h3 h4 h5 g1 g3 g4 g5
  show ?thesis by (auto split: sum.splits)
qed

text \<open>
  C6, as the specification states it, fails on the builder: a profile that names an IAM
  sub-profile with a region and a TLS sub-profile does not always build. The profile
  \<open>old-iam\<close> does both and asks for a version that resolves on neither path.
\<close>

theorem iam_with_tls_may_fail:
  "IsSet sampleViper ''client-profile.old-iam.tls''
   \<and> GetString sampleViper ''client-profile.old-iam.iam'' = ''eks''
   \<and> GetString sampleViper ''iam.eks.region'' = ''us-west-1''
   \<and> fst (GetSaramaConfigFromClientProfile sampleEnv ''old-iam'' sampleViper)
       = Inl (UnknownKafkaVersion ''0.8.3'')"
  by code_simp

text \<open>
  C6, amended. For every profile that names an IAM sub-profile with a non-empty region
  and a TLS sub-profile, and whose earlier steps pass (the profile is known or the name
  is empty, the requested version resolves, the TLS material that is named loads), the
  build succeeds, and the configuration has SASL enabled, handshake-first true, the
  OAuth mechanism, and a token provider with the sub-profile's region, role and
  local-identity-profile name.
\<close>

theorem iam_with_tls_builds:
  assumes known: "profileName = [] \<or> IsSet v (''client-profile.'' @ profileName)"
    and version:
      "parseKafkaVersion (ParseKafkaVersion e)
         (case config v (''client-profile.'' @ profileName @ ''.kafka-version'') of
            None \<Rightarrow> ''2.8.0'' | Some x \<Rightarrow> asString x) = Inr version"
    and tls: "IsSet v (''client-profile.'' @ profileName @ ''.tls'')"
    and name: "GetString v (''client-profile.'' @ profileName @ ''.tls'') = tlsName"
    and material:
      "GetString v (''tls.'' @ tlsName @ ''.cafile'') = [] \<or>
       (\<exists>caCert. ReadFile e (GetString v (''tls.'' @ tlsName @ ''.cafile'')) = Inr caCert) \<and>
       (GetString v (''tls.'' @ tlsName @ ''.certfile'') = [] \<or>
        GetString v (''tls.'' @ tlsName @ ''.keyfile'') = [] \<or>
        (\<exists>pair. LoadX509KeyPair e (GetString v (''tls.'' @ tlsName @ ''.certfile''))
                   (GetString v (''tls.'' @ tlsName @ ''.keyfile'')) = Inr pair))"
    and iam: "GetString v (''client-profile.'' @ profileName @ ''.iam'') = iamName"
      "iamName \<noteq> []"
    and region: "GetString v (''iam.'' @ iamName @ ''.region'') \<noteq> []"
  shows "\<exists>c. fst (GetSaramaConfigFromClientProfile e profileName v) = Inr c
           \<and> Net_SASL_Enable c
           \<and> Net_SASL_Handshake c
           \<and> Net_SASL_Mechanism c = SASLTypeOAuth
           \<and> Net_SASL_TokenProvider c =
               Some \<lparr>region = GetString v (''iam.'' @ iamName @ ''.region''),
                     roleArn = GetString v (''iam.'' @ iamName @ ''.role-arn''),
                     profile = GetString v (''iam.'' @ iamName @ ''.profile'')\<rparr>"
proof -
  let ?r = "configRootOf profileName" and ?w = "withDefaults v profileName"
  let ?c0 = "NewConfig\<lparr>ClientID := GetString ?w (?r @ ''.client-id''), Version := version,
               Consumer_Return_Errors := True\<rparr>"
  have known': "\<not> (profileName \<noteq> [] \<and> \<not> IsSet v ?r)"
    using known by (auto simp: configRootOf_def)
  have version': "parseKafkaVersion (ParseKafkaVersion e) (GetString ?w (?r @ ''.kafka-version''))
                    = Inr version"
    using version by (simp add: kafka_version_withDefaults) (simp add: configRootOf_def)
  have tls': "IsSet ?w (?r @ ''.tls'')"
    using tls by (simp add: reads_withDefaults configRootOf_def)
  have name': "GetString ?w (?r @ ''.tls'') = tlsName"
    using name by (simp add: reads_withDefaults configRootOf_def)
  have material':
    "GetString ?w (''tls.'' @ GetString ?w (?r @ ''.tls'') @ ''.cafile'') = [] \<or>
     (\<exists>caCert. ReadFile e (GetString ?w (''tls.'' @ GetString ?w (?r @ ''.tls'') @ ''.cafile''))
                 = Inr caCert) \<and>
     (GetString ?w (''tls.'' @ GetString ?w (?r @ ''.tls'') @ ''.certfile'') = [] \<or>
      GetString ?w (''tls.'' @ GetString ?w (?r @ ''.tls'') @ ''.keyfile'') = [] \<or>
      (\<exists>cert. LoadX509KeyPair e
                 (GetString ?w (''tls.'' @ GetString ?w (?r @ ''.tls'') @ ''.certfile''))
                 (GetString ?w (''tls.'' @ GetString ?w (?r @ ''.tls'') @ ''.keyfile''))
               = Inr cert))"
    using material by (simp add: name' reads_withDefaults)
  from configureTLS_loads [OF tls' material'] obtain c1 where
    c1: "configureTLS e ?w ?r ?c0 = Inr c1" by blast
  have enabled: "Net_TLS_Enable (configureSASL ?w ?r c1)"
    using configureTLS_Enable [OF c1] tls' by (simp add: configureSASL_TLS_Enable)
  have iam': "GetString ?w (?r @ ''.iam'') = iamName"
    using iam(1) by (simp add: reads_withDefaults configRootOf_def)
  have reads:
    "GetString ?w (''iam.'' @ iamName @ ''.region'') = GetString v (''iam.'' @ iamName @ ''.region'')"
    "GetString ?w (''iam.'' @ iamName @ ''.role-arn'') = GetString v (''iam.'' @ iamName @ ''.role-arn'')"
    "GetString ?w (''iam.'' @ iamName @ ''.profile'') = GetString v (''iam.'' @ iamName @ ''.profile'')"
    by (simp_all add: reads_withDefaults)
  have named: "GetString ?w (?r @ ''.iam'') \<noteq> []"
    using iam' iam(2) by simp
  have region': "GetString ?w (''iam.'' @ GetString ?w (?r @ ''.iam'') @ ''.region'') \<noteq> []"
    using region reads(1) by (simp add: iam')
  note c2 = configureIAM_named [OF named region' enabled, of profileName]
  have built: "assemble e ?w profileName ?r =
      Inr (configureTimeouts ?w ?r
            (configureSASL ?w ?r c1
               \<lparr>Net_SASL_Enable := True, Net_SASL_Handshake := True,
                Net_SASL_Mechanism := SASLTypeOAuth,
                Net_SASL_TokenProvider :=
                  Some \<lparr>region = GetString ?w (''iam.'' @ GetString ?w (?r @ ''.iam'') @ ''.region''),
                        roleArn = GetString ?w (''iam.'' @ GetString ?w (?r @ ''.iam'') @ ''.role-arn''),
                        profile = GetString ?w (''iam.'' @ GetString ?w (?r @ ''.iam'') @ ''.profile'')\<rparr>\<rparr>))"
    by (rule assemble_blocks [OF version' c1 c2])
  have "fst (GetSaramaConfigFromClientProfile e profileName v) = assemble e ?w profileName ?r"
    using known' by (auto simp: build_eq)
  with built reads show ?thesis
    by (simp add: configureTimeouts_fields iam')
qed

theorem iam_with_tls_builds_witness:
  "IsSet sampleViper ''client-profile.msk-iam''
   \<and> parseKafkaVersion (ParseKafkaVersion sampleEnv) ''2.0.0'' = Inr (newKafkaVersion 2 0 0 0)
   \<and> IsSet sampleViper ''client-profile.msk-iam.tls''
   \<and> GetString sampleViper ''client-profile.msk-iam.tls'' = ''msk-tls''
   \<and> GetString sampleViper ''tls.msk-tls.cafile'' = []
   \<and> GetString sampleViper ''client-profile.msk-iam.iam'' = ''eks''
   \<and> GetString sampleViper ''iam.eks.region'' = ''us-west-1''
   \<and> (case fst (GetSaramaConfigFromClientProfile sampleEnv ''msk-iam'' sampleViper) of
        Inl err \<Rightarrow> False
      | Inr c \<Rightarrow>
          Net_SASL_Enable c \<and> Net_SASL_Handshake c \<and> Net_SASL_Mechanism c = SASLTypeOAuth
          \<and> Net_SASL_TokenProvider c
              = Some \<lparr>region = ''us-west-1'', roleArn = [], profile = []\<rparr>)"
proof -
  have h1: "IsSet sampleViper (''client-profile.'' @ ''msk-iam'')" by code_simp
  have h2: "parseKafkaVersion (ParseKafkaVersion sampleEnv)
              (case config sampleViper (''client-profile.'' @ ''msk-iam'' @ ''.kafka-version'') of
                 None \<Rightarrow> ''2.8.0'' | Some x \<Rightarrow> asString x) = Inr (newKafkaVersion 2 0 0 0)"
    by code_simp
  have h2': "parseKafkaVersion (ParseKafkaVersion sampleEnv) ''2.0.0'' = Inr (newKafkaVersion 2 0 0 0)"
    by code_simp
  have h3: "IsSet sampleViper (''client-profile.'' @ ''msk-iam'' @ ''.tls'')" by code_simp
  have h4: "GetString sampleViper (''client-profile.'' @ ''msk-iam'' @ ''.tls'') = ''msk-tls''"
    by code_simp
  have h5: "GetString sampleViper (''tls.'' @ ''msk-tls'' @ ''.cafile'') = []" by code_simp
  have h6: "GetString sampleViper (''client-profile.'' @ ''msk-iam'' @ ''.iam'') = ''eks''"
    by code_simp
  have h7: "''eks'' \<noteq> []" by simp
  have h8: "GetString sampleViper (''iam.'' @ ''eks'' @ ''.region'') = ''us-west-1''" by code_simp
  have h8': "GetString sampleViper (''iam.'' @ ''eks'' @ ''.region'') \<noteq> []"
    using h8 by simp
  have h9: "GetString sampleViper (''iam.'' @ ''eks'' @ ''.role-arn'') = []"
    "GetString sampleViper (''iam.'' @ ''eks'' @ ''.profile'') = []"
    by code_simp+
  from iam_with_tls_builds [OF disjI2 [OF h1] h2 h3 h4 disjI1 [OF h5] h6 h7 h8']
    h1 h2' h3 h4 h5 h6 h8 h9
  show ?thesis by auto
qed

section \<open>Password-challenge resolution\<close>

text \<open>
  C8, as the specification states it, fails on the builder. The profile \<open>plain-iam\<close>
  names a SASL sub-profile whose mechanism is \<open>PLAIN\<close> and whose handshake-first flag
  is false, and an IAM sub-profile: the configuration has the OAuth mechanism, not an
  unset one, and handshake-first true.
\<close>

theorem sasl_unrecognized_overridden_by_iam:
  "IsSet sampleViper ''client-profile.plain-iam.sasl''
   \<and> GetString sampleViper ''client-profile.plain-iam.sasl'' = ''plain''
   \<and> GetString sampleViper ''sasl.plain.mechanism'' = ''PLAIN''
   \<and> \<not> GetBool sampleViper ''sasl.plain.handshake-first''
   \<and> fst (GetSaramaConfigFromClientProfile sampleEnv ''plain-iam'' sampleViper)
       = Inr \<lparr>ClientID = ''burrow-lagchecker'', Version = newKafkaVersion 2 8 0 0,
               Consumer_Return_Errors = True, Net_TLS_Enable = True,
               Net_TLS_Config =
                 Some \<lparr>RootCAs = None, Certificates = [], InsecureSkipVerify = True\<rparr>,
               Net_SASL_Enable = True, Net_SASL_Mechanism = ''OAUTHBEARER'',
               Net_SASL_SCRAMClientGeneratorFunc = None, Net_SASL_Handshake = True,
               Net_SASL_User = ''burrow'', Net_SASL_Password = ''secret'',
               Net_SASL_TokenProvider =
                 Some \<lparr>region = ''us-west-1'', roleArn = [], profile = []\<rparr>,
               Net_DialTimeout = 30000000000, Net_ReadTimeout = 30000000000\<rparr>"
  by code_simp

text \<open>
  C8, amended. For every profile that names a SASL sub-profile whose mechanism string is
  neither \<open>SCRAM-SHA-256\<close> nor \<open>SCRAM-SHA-512\<close>, and that names no IAM sub-profile,
  the configuration the build returns has SASL enabled, the mechanism and the SCRAM
  client generator unset, and handshake-first, user name and password as the sub-profile
  gives them.
\<close>

theorem sasl_unrecognized_mechanism:
  assumes sasl: "IsSet v (''client-profile.'' @ profileName @ ''.sasl'')"
    and name: "GetString v (''client-profile.'' @ profileName @ ''.sasl'') = saslName"
    and mech: "GetString v (''sasl.'' @ saslName @ ''.mechanism'') = mechanism"
      "mechanism \<noteq> ''SCRAM-SHA-256''" "mechanism \<noteq> ''SCRAM-SHA-512''"
    and noiam: "GetString v (''client-profile.'' @ profileName @ ''.iam'') = []"
    and built: "fst (GetSaramaConfigFromClientProfile e profileName v) = Inr c"
  shows "Net_SASL_Enable c
       \<and> Net_SASL_Mechanism c = []
       \<and> Net_SASL_SCRAMClientGeneratorFunc c = None
       \<and> Net_SASL_Handshake c = GetBool v (''sasl.'' @ saslName @ ''.handshake-first'')
       \<and> Net_SASL_User c = GetString v (''sasl.'' @ saslName @ ''.username'')
       \<and> Net_SASL_Password c = GetString v (''sasl.'' @ saslName @ ''.password'')"
proof -
  let ?r = "configRootOf profileName" and ?w = "withDefaults v profileName"
  have sasl': "IsSet ?w (?r @ ''.sasl'')"
    using sasl by (simp add: reads_withDefaults configRootOf_def)
  have name': "GetString ?w (?r @ ''.sasl'') = saslName"
    using name by (simp add: reads_withDefaults configRootOf_def)
  have noiam': "GetString ?w (?r @ ''.iam'') = []"
    using noiam by (simp add: reads_withDefaults configRootOf_def)
  have mech':
    "GetString ?w (''sasl.'' @ GetString ?w (?r @ ''.sasl'') @ ''.mechanism'') \<noteq> ''SCRAM-SHA-256''"
    "GetString ?w (''sasl.'' @ GetString ?w (?r @ ''.sasl'') @ ''.mechanism'') \<noteq> ''SCRAM-SHA-512''"
    using mech by (simp_all add: name' reads_withDefaults)
  have reads:
    "GetBool ?w (''sasl.'' @ GetString ?w (?r @ ''.sasl'') @ ''.handshake-first'')
       = GetBool v (''sasl.'' @ saslName @ ''.handshake-first'')"
    "GetString ?w (''sasl.'' @ GetString ?w (?r @ ''.sasl'') @ ''.username'')
       = GetString v (''sasl.'' @ saslName @ ''.username'')"
    "GetString ?w (''sasl.'' @ GetString ?w (?r @ ''.sasl'') @ ''.password'')
       = GetString v (''sasl.'' @ saslName @ ''.password'')"
    by (simp_all add: name' reads_withDefaults)
  from build_Inr [OF built] obtain version c1 c2 where
    c1: "configureTLS e ?w ?r
           (NewConfig\<lparr>ClientID := GetString ?w (?r @ ''.client-id''), Version := version,
                      Consumer_Return_Errors := True\<rparr>) = Inr c1"
    and c2: "configureIAM ?w profileName ?r (configureSASL ?w ?r c1) = Inr c2"
    and c: "c = configureTimeouts ?w ?r c2"
    by (rule assemble_Inr)
  have unset: "Net_SASL_Mechanism c1 = []" "Net_SASL_SCRAMClientGeneratorFunc c1 = None"
    using configureTLS_SASL_fields [OF c1] by (simp_all add: NewConfig_def)
  have "c2 = configureSASL ?w ?r c1"
    using c2 by (simp add: configureIAM_absent [OF noiam'])
  then have "c = configureTimeouts ?w ?r (configureSASL ?w ?r c1)"
    by (simp add: c)
  with reads unset show ?thesis
    by (simp add: configureTimeouts_fields configureSASL_set [OF sasl']
        configureSASL_unrecognized [OF sasl' mech'])
qed

theorem sasl_unrecognized_mechanism_witness:
  "IsSet sampleViper ''client-profile.plain.sasl''
   \<and> GetString sampleViper ''client-profile.plain.sasl'' = ''plain''
   \<and> GetString sampleViper ''sasl.plain.mechanism'' = ''PLAIN''
   \<and> GetString sampleViper ''client-profile.plain.iam'' = []
   \<and> (case fst (GetSaramaConfigFromClientProfile sampleEnv ''plain'' sampleViper) of
        Inl err \<Rightarrow> False
      | Inr c \<Rightarrow>
          Net_SASL_Enable c \<and> Net_SASL_Mechanism c = []
          \<and> Net_SASL_SCRAMClientGeneratorFunc c = None
          \<and> \<not> Net_SASL_Handshake c
          \<and> Net_SASL_User c = ''burrow'' \<and> Net_SASL_Password c = ''secret'')"
proof -
  have h1: "IsSet sampleViper (''client-profile.'' @ ''plain'' @ ''.sasl'')" by code_simp
  have h2: "GetString sampleViper (''client-profile.'' @ ''plain'' @ ''.sasl'') = ''plain''"
    by code_simp
  have h3: "GetString sampleViper (''sasl.'' @ ''plain'' @ ''.mechanism'') = ''PLAIN''"
    by code_simp
  have h4: "''PLAIN'' \<noteq> ''SCRAM-SHA-256''" "''PLAIN'' \<noteq> ''SCRAM-SHA-512''" by simp_all
  have h5: "GetString sampleViper (''client-profile.'' @ ''plain'' @ ''.iam'') = []" by code_simp
  have h6: "\<not> GetBool sampleViper (''sasl.'' @ ''plain'' @ ''.handshake-first'')"
    "GetString sampleViper (''sasl.'' @ ''plain'' @ ''.username'') = ''burrow''"
    "GetString sampleViper (''sasl.'' @ ''plain'' @ ''.password'') = ''secret''"
    by code_simp+
  have "case fst (GetSaramaConfigFromClientProfile sampleEnv ''plain'' sampleViper) of
          Inl err \<Rightarrow> False | Inr c \<Rightarrow> True"
    by code_simp
  then obtain c where built:
    "fst (GetSaramaConfigFromClientProfile sampleEnv ''plain'' sampleViper) = Inr c"
    by (auto split: sum.splits)
  from sasl_unrecognized_mechanism [OF h1 h2 h3 h4 h5 built] h1 h2 h3 h5 h6 built
  show ?thesis by simp
qed

text \<open>
  C10. For every profile that names both a SASL and an IAM sub-profile, with a TLS
  sub-profile and a non-empty region, the IAM block runs after the SASL block and
  overrides it: in the configuration the build returns the mechanism is OAuth and
  handshake-first is true, whatever mechanism and flag the SASL sub-profile gives, and
  user name and password are still those of the SASL sub-profile.
\<close>

theorem iam_overrides_sasl:
  assumes sasl: "IsSet v (''client-profile.'' @ profileName @ ''.sasl'')"
    and name: "GetString v (''client-profile.'' @ profileName @ ''.sasl'') = saslName"
    and iam: "GetString v (''client-profile.'' @ profileName @ ''.iam'') = iamName"
      "iamName \<noteq> []"
    and tls: "IsSet v (''client-profile.'' @ profileName @ ''.tls'')"
    and region: "GetString v (''iam.'' @ iamName @ ''.region'') \<noteq> []"
    and built: "fst (GetSaramaConfigFromClientProfile e profileName v) = Inr c"
  shows "Net_SASL_Enable c
       \<and> Net_SASL_Mechanism c = SASLTypeOAuth
       \<and> Net_SASL_Handshake c
       \<and> Net_SASL_User c = GetString v (''sasl.'' @ saslName @ ''.username'')
       \<and> Net_SASL_Password c = GetString v (''sasl.'' @ saslName @ ''.password'')"
proof -
  let ?r = "configRootOf profileName" and ?w = "withDefaults v profileName"
  have sasl': "IsSet ?w (?r @ ''.sasl'')"
    using sasl by (simp add: reads_withDefaults configRootOf_def)
  have name': "GetString ?w (?r @ ''.sasl'') = saslName"
    using name by (simp add: reads_withDefaults configRootOf_def)
  have named: "GetString ?w (?r @ ''.iam'') \<noteq> []"
    using iam by (simp add: reads_withDefaults configRootOf_def)
  have reads:
    "GetString ?w (''sasl.'' @ GetString ?w (?r @ ''.sasl'') @ ''.username'')
       = GetString v (''sasl.'' @ saslName @ ''.username'')"
    "GetString ?w (''sasl.'' @ GetString ?w (?r @ ''.sasl'') @ ''.password'')
       = GetString v (''sasl.'' @ saslName @ ''.password'')"
    by (simp_all add: name' reads_withDefaults)
  from build_Inr [OF built] obtain version c1 c2 where
    c1: "configureTLS e ?w ?r
           (NewConfig\<lparr>ClientID := GetString ?w (?r @ ''.client-id''), Version := version,
                      Consumer_Return_Errors := True\<rparr>) = Inr c1"
    and c2: "configureIAM ?w profileName ?r (configureSASL ?w ?r c1) = Inr c2"
    and c: "c = configureTimeouts ?w ?r c2"
    by (rule assemble_Inr)
  from configureIAM_Inr [OF c2] named
  have "Net_SASL_Enable c2 \<and> Net_SASL_Mechanism c2 = SASLTypeOAuth \<and> Net_SASL_Handshake c2
        \<and> Net_SASL_User c2 = Net_SASL_User (configureSASL ?w ?r c1)
        \<and> Net_SASL_Password c2 = Net_SASL_Password (configureSASL ?w ?r c1)"
    by auto
  with reads show ?thesis
    by (simp add: c configureTimeouts_fields configureSASL_set [OF sasl'])
qed

theorem iam_overrides_sasl_witness:
  "IsSet sampleViper ''client-profile.scram-iam.sasl''
   \<and> GetString sampleViper ''client-profile.scram-iam.sasl'' = ''scram''
   \<and> GetString sampleViper ''sasl.scram.mechanism'' = ''SCRAM-SHA-512''
   \<and> \<not> GetBool sampleViper ''sasl.scram.handshake-first''
   \<and> GetString sampleViper ''client-profile.scram-iam.iam'' = ''eks''
   \<and> IsSet sampleViper ''client-profile.scram-iam.tls''
   \<and> GetString sampleViper ''iam.eks.region'' = ''us-west-1''
   \<and> (case fst (GetSaramaConfigFromClientProfile sampleEnv ''scram-iam'' sampleViper) of
        Inl err \<Rightarrow> False
      | Inr c \<Rightarrow>
          Net_SASL_Enable c \<and> Net_SASL_Mechanism c = ''OAUTHBEARER'' \<and> Net_SASL_Handshake c
          \<and> Net_SASL_User c = ''burrow'' \<and> Net_SASL_Password c = ''secret'')"
proof -
  have h1: "IsSet sampleViper (''client-profile.'' @ ''scram-iam'' @ ''.sasl'')" by code_simp
  have h2: "GetString sampleViper (''client-profile.'' @ ''scram-iam'' @ ''.sasl'') = ''scram''"
    by code_simp
  have h3: "GetString sampleViper (''client-profile.'' @ ''scram-iam'' @ ''.iam'') = ''eks''"
    by code_simp
  have h4: "''eks'' \<noteq> []" by simp
  have h5: "IsSet sampleViper (''client-profile.'' @ ''scram-iam'' @ ''.tls'')" by code_simp
  have h6: "GetString sampleViper (''iam.'' @ ''eks'' @ ''.region'') = ''us-west-1''" by code_simp
  have h6': "GetString sampleViper (''iam.'' @ ''eks'' @ ''.region'') \<noteq> []"
    using h6 by simp
  have h7: "GetString sampleViper ''sasl.scram.mechanism'' = ''SCRAM-SHA-512''"
    "\<not> GetBool sampleViper ''sasl.scram.handshake-first''"
    "GetString sampleViper (''sasl.'' @ ''scram'' @ ''.username'') = ''burrow''"
    "GetString sampleViper (''sasl.'' @ ''scram'' @ ''.password'') = ''secret''"
    by code_simp+
  have "case fst (GetSaramaConfigFromClientProfile sampleEnv ''scram-iam'' sampleViper) of
          Inl err \<Rightarrow> False | Inr c \<Rightarrow> True"
    by code_simp
  then obtain c where built:
    "fst (GetSaramaConfigFromClientProfile sampleEnv ''scram-iam'' sampleViper) = Inr c"
    by (auto split: sum.splits)
  from iam_overrides_sasl [OF h1 h2 h3 h4 h5 h6' built] h1 h2 h3 h5 h6 h7 built
  show ?thesis by simp
qed

section \<open>Determinism\<close>

text \<open>
  C9. The build is a function of the profile name, the environment and the store, and
  the only thing it changes is the store, by its two \<^verbatim>\<open>SetDefault\<close> calls. A second
  build of the same profile, on the store as the first build left it and in the same
  environment, gives the same result (the same panic, or a configuration equal in every
  field) and leaves the store as it found it.
\<close>

theorem build_twice_same:
  "GetSaramaConfigFromClientProfile e profileName
     (snd (GetSaramaConfigFromClientProfile e profileName v))
   = GetSaramaConfigFromClientProfile e profileName v"
proof (cases "profileName \<noteq> [] \<and> \<not> IsSet v (configRootOf profileName)")
  case True
  then have "GetSaramaConfigFromClientProfile e profileName v
               = (Inl (UnknownClientProfile profileName), v)"
    by (simp add: build_eq)
  then show ?thesis by simp
next
  case False
  let ?r = "configRootOf profileName" and ?w = "withDefaults v profileName"
  from False have first:
    "GetSaramaConfigFromClientProfile e profileName v = (assemble e ?w profileName ?r, ?w)"
    by (auto simp: build_eq)
  have "IsSet ?w ?r = IsSet v ?r"
    by (simp add: reads_withDefaults)
  with False have second:
    "GetSaramaConfigFromClientProfile e profileName ?w = (assemble e ?w profileName ?r, ?w)"
    by (auto simp: build_eq [of e profileName ?w] withDefaults_idem)
  show ?thesis by (simp add: first second)
qed

theorem build_twice_same_witness:
  "defaults sampleViper ''client-profile.test.kafka-version'' = None
   \<and> defaults (snd (GetSaramaConfigFromClientProfile sampleEnv ''test'' sampleViper))
       ''client-profile.test.kafka-version'' = Some (stringSetting ''2.8.0'')
   \<and> GetSaramaConfigFromClientProfile sampleEnv ''test''
       (snd (GetSaramaConfigFromClientProfile sampleEnv ''test'' sampleViper))
     = GetSaramaConfigFromClientProfile sampleEnv ''test'' sampleViper
   \<and> fst (GetSaramaConfigFromClientProfile sampleEnv ''test'' sampleViper)
       = Inr \<lparr>ClientID = ''burrow-test'', Version = V0_10_0_0,
               Consumer_Return_Errors = True, Net_TLS_Enable = False,
               Net_TLS_Config = None, Net_SASL_Enable = False,
               Net_SASL_Mechanism = [], Net_SASL_SCRAMClientGeneratorFunc = None,
               Net_SASL_Handshake = True, Net_SASL_User = [],
               Net_SASL_Password = [], Net_SASL_TokenProvider = None,
               Net_DialTimeout = 30000000000, Net_ReadTimeout = 30000000000\<rparr>"
proof -
  have h1: "defaults sampleViper ''client-profile.test.kafka-version'' = None"
    by (simp add: sampleViper_def)
  have h2: "defaults (snd (GetSaramaConfigFromClientProfile sampleEnv ''test'' sampleViper))
              ''client-profile.test.kafka-version'' = Some (stringSetting ''2.8.0'')"
    by code_simp
  have h3: "fst (GetSaramaConfigFromClientProfile sampleEnv ''test'' sampleViper)
       = Inr \<lparr>ClientID = ''burrow-test'', Version = V0_10_0_0,
               Consumer_Return_Errors = True, Net_TLS_Enable = False,
               Net_TLS_Config = None, Net_SASL_Enable = False,
               Net_SASL_Mechanism = [], Net_SASL_SCRAMClientGeneratorFunc = None,
               Net_SASL_Handshake = True, Net_SASL_User = [],
               Net_SASL_Password = [], Net_SASL_TokenProvider = None,
               Net_DialTimeout = 30000000000, Net_ReadTimeout = 30000000000\<rparr>"
    by code_simp
  from build_twice_same [of sampleEnv "''test''" sampleViper] h1 h2 h3
  show ?thesis by (intro conjI)
qed

end
